theory Spec2Isabelle
  imports Complex_Main "HOL-Library.Sublist"
begin

section \<open>The Layercode voice client: data model\<close>

text \<open>
  The repository holds the client class \<^verbatim>\<open>LayercodeClient\<close> in two revisions of
  \<^verbatim>\<open>index.ts\<close>: the revision with the pre-speech audio buffer, the turn id, the
  amplitude fallback and the \<^verbatim>\<open>client.ready\<close> notice (\<^verbatim>\<open>src/unnamed/part_003\<close>), and the
  revision with the \<^verbatim>\<open>vadPausedPlayer\<close> flag (\<^verbatim>\<open>src/src/index.ts\<close>). Names without a
  suffix embed the first; names ending in \<open>_idx\<close> embed the second.

  The runtime is single threaded: every handler runs to its next \<^verbatim>\<open>await\<close> without
  interleaving. A handler is a function from the client's fields to the client's
  fields. Everything a handler does to the outside (console, callbacks of the host, the
  socket, the player, the recorder, the speech detector, timers) is appended, in program
  order, to the field \<open>trace\<close>.

  An \<^verbatim>\<open>async\<close> method is one definition for each stretch of its body between two
  \<^verbatim>\<open>await\<close>s; what runs after an \<^verbatim>\<open>await\<close> is an event of its own, so that other
  handlers can run in between.

  A JavaScript number is the real number that the double stands for. Doubles are compared
  as these reals are. The product of two doubles is rounded, so it is not their product
  as reals: the multiplication of doubles is a parameter, \<open>mul\<close>, of the one definition
  that multiplies. The callbacks of the host and the calls into the collaborators return
  without an exception, except where a definition says otherwise (the decoding and
  queueing of a \<^verbatim>\<open>response.audio\<close> frame, the authorization request).
\<close>

subsection \<open>Values parsed from a frame\<close>

text \<open>What \<^verbatim>\<open>JSON.parse\<close> returns. An object is its list of distinct keys with values.\<close>

datatype json =
    JNull
  | JBool bool
  | JNum real
  | JStr string
  | JArr "json list"
  | JObj "(string \<times> json) list"

text \<open>A JavaScript value read from a property: \<^verbatim>\<open>undefined\<close> or a parsed value.\<close>

datatype jsval = Undefined | Val json

datatype exn =
    SyntaxError
  | TypeError
  | InvalidCharacterError
  | TrackIdError
  | AuthorizeError
  | UnknownTrigger
  | Rejected

text \<open>
  \<^verbatim>\<open>message.k\<close> for the keys the client reads (\<^verbatim>\<open>type\<close>, \<^verbatim>\<open>role\<close>, \<^verbatim>\<open>content\<close>,
  \<^verbatim>\<open>turn_id\<close>): reading a property of \<^verbatim>\<open>null\<close> throws a TypeError; numbers, strings,
  booleans and arrays have no property of these names.
\<close>

fun getProp :: "json \<Rightarrow> string \<Rightarrow> exn + jsval" where
  "getProp JNull k = Inl TypeError"
| "getProp (JObj kvs) k = Inr (case map_of kvs k of None \<Rightarrow> Undefined | Some v \<Rightarrow> Val v)"
| "getProp _ k = Inr Undefined"

text \<open>JavaScript truthiness (\<^verbatim>\<open>!!v\<close>); objects and arrays are truthy.\<close>

fun truthy :: "jsval \<Rightarrow> bool" where
  "truthy Undefined = False"
| "truthy (Val JNull) = False"
| "truthy (Val (JBool b)) = b"
| "truthy (Val (JNum r)) = (r \<noteq> 0)"
| "truthy (Val (JStr s)) = (s \<noteq> [])"
| "truthy (Val (JArr xs)) = True"
| "truthy (Val (JObj kvs)) = True"

text \<open>\<^verbatim>\<open>a === b\<close> for a stored value and a value of the frame being handled: two
  primitives are equal when they are the same value, an object or an array is equal to
  nothing but itself.\<close>

fun strictEq :: "jsval \<Rightarrow> jsval \<Rightarrow> bool" where
  "strictEq (Val (JArr xs)) b = False"
| "strictEq (Val (JObj kvs)) b = False"
| "strictEq a b = (a = b)"

subsection \<open>Messages of the client (\<^verbatim>\<open>ClientMessage\<close> of interfaces.ts)\<close>

datatype vad_event = vad_start | vad_end | vad_model_failed

datatype cmsg =
    ClientAudio string
  | TriggerTurnStart
  | TriggerTurnEnd
  | ReplayFinished
  | AudioInterrupted real jsval real
  | VadEvents vad_event
  | ClientReady

text \<open>The \<^verbatim>\<open>type\<close> tag of each variant.\<close>

fun msg_type :: "cmsg \<Rightarrow> string" where
  "msg_type (ClientAudio c) = ''client.audio''"
| "msg_type TriggerTurnStart = ''trigger.turn.start''"
| "msg_type TriggerTurnEnd = ''trigger.turn.end''"
| "msg_type ReplayFinished = ''trigger.response.audio.replay_finished''"
| "msg_type (AudioInterrupted po tid pms) = ''trigger.response.audio.interrupted''"
| "msg_type (VadEvents e) = ''vad_events''"
| "msg_type ClientReady = ''client.ready''"

subsection \<open>Effects\<close>

datatype level = Log | Debug | Warn | Error

text \<open>The arguments of a console call: literal text, values, numbers, flags.\<close>

datatype arg =
    AVal jsval
  | AMsg cmsg
  | AExn exn
  | AFlags "(string \<times> bool) list"
  | AText string
  | ANat nat

text \<open>The value \<^verbatim>\<open>wavPlayer.interrupt()\<close> resolves to, when it is not \<^verbatim>\<open>null\<close>.\<close>

record offsetData =
  trackId :: jsval
  offset :: real
  currentTime :: real

datatype profile = NonInterruptible | Interruptible

datatype effect =
    Console level "arg list"
  | WsNew
  | WsSend cmsg
  | WsClose
  | OnConnect
  | OnDisconnect
  | OnError exn
  | OnDataMessage json
  | OnStatusChange string
  | OnUserIsSpeakingChange bool
  | PlayerInterrupt
  | PlayerPause
  | PlayerPlay
  | PlayerAdd16BitPCM "nat list" jsval
  | PlayerClearInterruptedTracks "jsval list"
  | PlayerConnect
  | PlayerDisconnect
  | RecorderBegin
  | RecorderRecord
  | RecorderQuit
  | RecorderStartAmplitudeMonitoring
  | PlayerStartAmplitudeMonitoring
  | VadNew profile
  | VadStart
  | VadPause
  | VadDestroy
  | SetTimeout nat
  | ClearTimeout
  | Fetch

subsection \<open>The fields of the client\<close>

datatype readyState = CONNECTING | OPEN | CLOSING | CLOSED

text \<open>The fields both revisions have. \<open>vad\<close> is \<^verbatim>\<open>this.vad !== null\<close>; \<open>ws\<close> is
  \<^verbatim>\<open>null\<close> or the socket's \<^verbatim>\<open>readyState\<close>.\<close>

record core =
  vad :: bool
  ws :: "readyState option"
  status :: string
  pushToTalkActive :: bool
  pushToTalkEnabled :: bool
  canInterrupt :: bool
  userIsSpeaking :: bool
  trace :: "effect list"

text \<open>The two variables of a closure of \<^verbatim>\<open>_setupAmplitudeBasedVAD\<close>.\<close>

record ampVAD =
  isSpeakingByAmplitude :: bool
  silenceFrames :: nat

text \<open>
  The revision of part_003: the fields of the class, and what the runtime holds for the
  client besides them.
  \<^item> Every call of \<^verbatim>\<open>_initializeVAD\<close> outside push-to-talk arms a 2000 ms timer of its
    own. \<open>vadInits\<close> counts these calls; the call number \<open>i\<close> owns timer \<open>i\<close>, and
    \<open>vadTimeouts\<close> is the set of the timers that are armed.
  \<^item> Every call of \<^verbatim>\<open>_setupAmplitudeBasedVAD\<close> registers a closure of its own with the
    recorder; \<open>amplitudeVADs\<close> holds the closures in the order they were registered.
    None is ever removed.
  \<^item> \<open>resumeTimers\<close> counts the armed timers of \<^verbatim>\<open>onVADMisfire\<close>.
  \<^item> \<open>pendingInterrupts\<close> counts the runs of \<^verbatim>\<open>_clientInterruptAssistantReplay\<close> that
    wait for \<^verbatim>\<open>wavPlayer.interrupt()\<close> to resolve.
\<close>

record client = core +
  endUserTurn :: bool
  recorderStarted :: bool
  readySent :: bool
  currentTurnId :: jsval
  audioBuffer :: "string list"
  sessionId :: jsval
  vadResumeDelay :: nat
  vadInits :: nat
  vadTimeouts :: "nat set"
  amplitudeVADs :: "ampVAD list"
  resumeTimers :: nat
  pendingInterrupts :: nat

text \<open>The revision of src/index.ts.\<close>

record client_idx = core +
  vadPausedPlayer :: bool

text \<open>The fields as the constructor of part_003 leaves them (\<open>sid\<close> is
  \<^verbatim>\<open>options.sessionId || null\<close>, \<open>delay\<close> is \<^verbatim>\<open>options.vadResumeDelay || 500\<close>).\<close>

definition init :: "jsval \<Rightarrow> nat \<Rightarrow> client" where
  "init sid delay =
     \<lparr> vad = False, ws = None, status = ''disconnected'',
       pushToTalkActive = False, pushToTalkEnabled = False, canInterrupt = False,
       userIsSpeaking = False, trace = [],
       endUserTurn = False, recorderStarted = False, readySent = False,
       currentTurnId = Val JNull, audioBuffer = [], sessionId = sid,
       vadResumeDelay = delay, vadInits = 0, vadTimeouts = {}, amplitudeVADs = [],
       resumeTimers = 0, pendingInterrupts = 0 \<rparr>"

definition init_idx :: "client_idx" where
  "init_idx =
     \<lparr> vad = False, ws = None, status = ''disconnected'',
       pushToTalkActive = False, pushToTalkEnabled = False, canInterrupt = False,
       userIsSpeaking = False, trace = [],
       vadPausedPlayer = False \<rparr>"

section \<open>Operations shared by both revisions\<close>

definition emit :: "effect \<Rightarrow> ('a core_scheme) \<Rightarrow> ('a core_scheme)" where
  "emit e s = s\<lparr>trace := trace s @ [e]\<rparr>"

definition wsOpen :: "('a core_scheme) \<Rightarrow> bool" where
  "wsOpen s = (ws s = Some OPEN)"

text \<open>
  \<^verbatim>\<open>_wsSend\<close> (part_003 lines 474-484, index.ts lines 346-356). A message other than
  audio is printed with \<^verbatim>\<open>console.log('sent ws msg:', message)\<close> whether or not it is
  sent; \<^verbatim>\<open>ws.send\<close> runs only when \<^verbatim>\<open>this.ws?.readyState === WebSocket.OPEN\<close>; the
  else branch is empty.
\<close>

definition wsSend :: "cmsg \<Rightarrow> ('a core_scheme) \<Rightarrow> ('a core_scheme)" where
  "wsSend m s =
     (let s1 = (if msg_type m \<noteq> ''client.audio''
                then emit (Console Log [AText ''sent ws msg:'', AMsg m]) s else s)
      in if wsOpen s1 then emit (WsSend m) s1 else s1)"

text \<open>\<^verbatim>\<open>_setStatus\<close>.\<close>

definition setStatus :: "string \<Rightarrow> ('a core_scheme) \<Rightarrow> ('a core_scheme)" where
  "setStatus st s = emit (OnStatusChange st) (s\<lparr>status := st\<rparr>)"

text \<open>\<^verbatim>\<open>_clientResponseAudioReplayFinished\<close>, the player's finished-playing callback.\<close>

definition clientResponseAudioReplayFinished :: "('a core_scheme) \<Rightarrow> ('a core_scheme)" where
  "clientResponseAudioReplayFinished s =
     wsSend ReplayFinished (emit (Console Log [AText ''clientResponseAudioReplayFinished'']) s)"

text \<open>\<^verbatim>\<open>triggerUserTurnFinished\<close>.\<close>

definition triggerUserTurnFinished :: "('a core_scheme) \<Rightarrow> ('a core_scheme)" where
  "triggerUserTurnFinished s =
     (if pushToTalkActive s
      then wsSend TriggerTurnEnd (s\<lparr>pushToTalkActive := False\<rparr>)
      else s)"

section \<open>The capture callback (part_003)\<close>

type_synonym pcm = "int list"

text \<open>
  \<^verbatim>\<open>_handleDataAvailable\<close> (part_003 lines 436-472). \<open>enc\<close> is
  \<^verbatim>\<open>arrayBufferToBase64\<close>, a total function on the \<^verbatim>\<open>Int16Array\<close> of the chunk; the
  body then has no statement that throws, so the \<^verbatim>\<open>catch\<close> arm has no branch here.
  The \<^verbatim>\<open>for ... of\<close> loop over the buffer is \<open>sendBuffered\<close>.
\<close>

definition sendAudio :: "client \<Rightarrow> bool" where
  "sendAudio s = (if pushToTalkEnabled s then pushToTalkActive s else userIsSpeaking s)"

fun sendBuffered :: "string list \<Rightarrow> client \<Rightarrow> client" where
  "sendBuffered [] s = s"
| "sendBuffered (bufferedAudio # rest) s = sendBuffered rest (wsSend (ClientAudio bufferedAudio) s)"

definition handleDataAvailable :: "(pcm \<Rightarrow> string) \<Rightarrow> pcm \<Rightarrow> client \<Rightarrow> client" where
  "handleDataAvailable enc chunk s =
     (let base64 = enc chunk in
      if sendAudio s then
        (let s1 = (if length (audioBuffer s) > 0
                   then (sendBuffered (audioBuffer s)
                           (emit (Console Log [AText ''Sending buffered audio chunks'',
                                                ANat (length (audioBuffer s))]) s))
                        \<lparr>audioBuffer := []\<rparr>
                   else s)
         in wsSend (ClientAudio base64) s1)
      else
        (let pushed = audioBuffer s @ [base64]
         in s\<lparr>audioBuffer := (if length pushed > 10 then tl pushed else pushed)\<rparr>))"

section \<open>The interruption routine\<close>

text \<open>
  \<^verbatim>\<open>_clientInterruptAssistantReplay\<close> (part_003 lines 332-353). Up to its
  \<^verbatim>\<open>await\<close> the routine calls \<^verbatim>\<open>wavPlayer.interrupt()\<close>: this is
  \<open>clientInterruptAssistantReplay\<close>. The rest, \<open>interruptResume\<close>, runs when the call
  has resolved, to \<open>od\<close> (\<open>None\<close> for \<^verbatim>\<open>null\<close>, which the player answers when it has no
  stream); it reads \<^verbatim>\<open>currentTurnId\<close> and the socket as they are then. A player that
  never answers never resumes the routine; the player's code is not among the sources,
  and a call that it rejects, which would end the routine at the \<^verbatim>\<open>await\<close> with nothing
  sent, is not an event of the model. \<open>mul\<close> is the multiplication of doubles, and the
  numbers are reals: the doubles without \<^verbatim>\<open>NaN\<close> and the infinities.
\<close>

definition clientInterruptAssistantReplay :: "client \<Rightarrow> client" where
  "clientInterruptAssistantReplay s =
     emit PlayerInterrupt (s\<lparr>pendingInterrupts := pendingInterrupts s + 1\<rparr>)"

definition interruptResume ::
  "(real \<Rightarrow> real \<Rightarrow> real) \<Rightarrow> offsetData option \<Rightarrow> client \<Rightarrow> client" where
  "interruptResume mul od s =
     (case od of
        Some offsetData \<Rightarrow>
          if truthy (currentTurnId s) then
            (let offsetMs = mul (currentTime offsetData) 1000
             in wsSend (AudioInterrupted offsetMs (currentTurnId s) offsetMs) s)
          else
            emit (Console Warn [AText ''Interruption requested but missing required data:'',
                    AFlags [(''hasOffsetData'', True), (''hasTurnId'', truthy (currentTurnId s))]]) s
      | None \<Rightarrow>
          emit (Console Warn [AText ''Interruption requested but missing required data:'',
                  AFlags [(''hasOffsetData'', False), (''hasTurnId'', truthy (currentTurnId s))]]) s)"

text \<open>The same routine in src/index.ts (lines 246-254): the call, and nothing after it.\<close>

definition clientInterruptAssistantReplay_idx :: "client_idx \<Rightarrow> client_idx" where
  "clientInterruptAssistantReplay_idx s = emit PlayerInterrupt s"

text \<open>\<^verbatim>\<open>triggerUserTurnStarted\<close> (part_003 lines 355-361); nothing follows its
  \<^verbatim>\<open>await\<close> of the routine.\<close>

definition triggerUserTurnStarted :: "client \<Rightarrow> client" where
  "triggerUserTurnStarted s =
     (if \<not> pushToTalkActive s
      then clientInterruptAssistantReplay
             (wsSend TriggerTurnStart (s\<lparr>pushToTalkActive := True\<rparr>))
      else s)"

section \<open>The dispatcher of inbound frames\<close>

text \<open>
  What the collaborators answer while a \<^verbatim>\<open>response.audio\<close> frame is handled is the
  parameter \<open>played\<close>: the outcome of \<^verbatim>\<open>base64ToArrayBuffer(message.content)\<close>
  followed by \<^verbatim>\<open>wavPlayer.add16BitPCM\<close> (\<open>Inl e\<close> when one of them throws \<open>e\<close>, else
  the decoded bytes).
\<close>

text \<open>The \<^verbatim>\<open>catch\<close> arm of \<^verbatim>\<open>_handleWebSocketMessage\<close> (both revisions).\<close>

definition catchMessage :: "exn \<Rightarrow> ('a core_scheme) \<Rightarrow> ('a core_scheme)" where
  "catchMessage e s =
     emit (OnError e) (emit (Console Error [AText ''Error processing WebSocket message:'', AExn e]) s)"

text \<open>
  The body of the \<^verbatim>\<open>try\<close> of \<^verbatim>\<open>_handleWebSocketMessage\<close> (part_003 lines 376-425)
  on a parsed frame, one definition for the first statement (\<open>logReceived\<close>) and one for
  each arm of the \<^verbatim>\<open>switch\<close>. \<open>Inl e\<close>: the statement threw \<open>e\<close>; every statement
  that can throw stands before the first assignment and the first effect of its arm.
\<close>

definition logReceived :: "jsval \<Rightarrow> json \<Rightarrow> ('a core_scheme) \<Rightarrow> ('a core_scheme)" where
  "logReceived ty message s =
     (if ty \<noteq> Val (JStr ''response.audio'')
      then emit (Console Log [AText ''received ws msg:'', AVal (Val message)]) s
      else s)"

definition turnStartArm :: "json \<Rightarrow> client \<Rightarrow> client" where
  "turnStartArm message s =
     (let s1 = emit (Console Log [AVal (Val message)])
                 (emit (Console Log [AText ''received turn.start from server'']) s)
      in
      if getProp message ''role'' = Inr (Val (JStr ''assistant'')) then
        emit (Console Log
          [AText ''Assistant turn started, will track new turn ID from audio/text'']) s1
      else if getProp message ''role'' = Inr (Val (JStr ''user'')) \<and> \<not> pushToTalkEnabled s1 then
        clientInterruptAssistantReplay
          (emit (Console Log
             [AText ''interrupting assistant audio, as user turn has started and pushToTalkEnabled is false'']) s1)
      else s1)"

definition responseAudioArm :: "exn + nat list \<Rightarrow> json \<Rightarrow> client \<Rightarrow> exn + client" where
  "responseAudioArm played message s =
     (case played of
        Inl e \<Rightarrow> Inl e
      | Inr audio \<Rightarrow>
         (case getProp message ''turn_id'' of
            Inl e \<Rightarrow> Inl e
          | Inr turn_id \<Rightarrow>
             (let s1 = emit (PlayerAdd16BitPCM audio turn_id) s
              in
              if \<not> truthy (currentTurnId s1) \<or> \<not> strictEq (currentTurnId s1) turn_id then
                Inr (emit (PlayerClearInterruptedTracks
                             (if truthy turn_id then [turn_id] else []))
                       ((emit (Console Log [AText ''Setting current turn ID to:'',
                                 AVal turn_id, AText ''was:'', AVal (currentTurnId s1)]) s1)
                        \<lparr>currentTurnId := turn_id\<rparr>))
              else Inr s1)))"

definition responseTextArm :: "json \<Rightarrow> client \<Rightarrow> exn + client" where
  "responseTextArm message s =
     (case getProp message ''turn_id'' of
        Inl e \<Rightarrow> Inl e
      | Inr turn_id \<Rightarrow>
         if \<not> truthy (currentTurnId s) then
           Inr (emit (Console Log [AText ''Setting current turn ID to:'',
                        AVal turn_id, AText ''from text message''])
                  (s\<lparr>currentTurnId := turn_id\<rparr>))
         else Inr s)"

definition responseDataArm :: "json \<Rightarrow> ('a core_scheme) \<Rightarrow> ('a core_scheme)" where
  "responseDataArm message s =
     emit (OnDataMessage message)
       (emit (Console Log [AText ''received response.data'', AVal (Val message)]) s)"

definition defaultArm :: "json \<Rightarrow> ('a core_scheme) \<Rightarrow> ('a core_scheme)" where
  "defaultArm message s =
     emit (Console Error [AText ''Unknown message type received:'', AVal (Val message)]) s"

definition dispatch :: "exn + nat list \<Rightarrow> json \<Rightarrow> client \<Rightarrow> exn + client" where
  "dispatch played message s =
     (case getProp message ''type'' of
        Inl e \<Rightarrow> Inl e
      | Inr ty \<Rightarrow>
         (let s0 = logReceived ty message s in
          if ty = Val (JStr ''turn.start'') then Inr (turnStartArm message s0)
          else if ty = Val (JStr ''response.audio'') then responseAudioArm played message s0
          else if ty = Val (JStr ''response.text'') then responseTextArm message s0
          else if ty = Val (JStr ''response.data'') then Inr (responseDataArm message s0)
          else Inr (defaultArm message s0)))"

text \<open>
  \<^verbatim>\<open>_handleWebSocketMessage\<close> (part_003 lines 374-430). \<open>parsed\<close> is the result of
  \<^verbatim>\<open>JSON.parse(event.data)\<close>: \<open>None\<close> when it throws a SyntaxError.
\<close>

definition handleWebSocketMessage ::
  "exn + nat list \<Rightarrow> json option \<Rightarrow> client \<Rightarrow> client" where
  "handleWebSocketMessage played parsed s =
     (case parsed of
        None \<Rightarrow> catchMessage SyntaxError s
      | Some message \<Rightarrow>
         (case dispatch played message s of
            Inl e \<Rightarrow> catchMessage e s
          | Inr s' \<Rightarrow> s'))"

text \<open>The same in src/index.ts (lines 276-322). Its \<^verbatim>\<open>switch\<close> has no arm for
  \<^verbatim>\<open>response.text\<close>, and its \<^verbatim>\<open>turn.start\<close> arm asks for \<^verbatim>\<open>canInterrupt\<close>.\<close>

definition turnStartArm_idx :: "json \<Rightarrow> client_idx \<Rightarrow> client_idx" where
  "turnStartArm_idx message s =
     (let s1 = emit (Console Log [AVal (Val message)])
                 (emit (Console Log [AText ''received turn.start from server'']) s)
      in
      if getProp message ''role'' = Inr (Val (JStr ''user'')) \<and> \<not> pushToTalkEnabled s1
         \<and> canInterrupt s1 then
        clientInterruptAssistantReplay_idx
          (emit (Console Log
             [AText ''interrupting assistant audio, as user turn has started and pushToTalkEnabled is false'']) s1)
      else s1)"

definition responseAudioArm_idx ::
  "exn + nat list \<Rightarrow> json \<Rightarrow> client_idx \<Rightarrow> exn + client_idx" where
  "responseAudioArm_idx played message s =
     (case played of
        Inl e \<Rightarrow> Inl e
      | Inr audio \<Rightarrow>
         (case getProp message ''turn_id'' of
            Inl e \<Rightarrow> Inl e
          | Inr turn_id \<Rightarrow> Inr (emit (PlayerAdd16BitPCM audio turn_id) s)))"

definition dispatch_idx ::
  "exn + nat list \<Rightarrow> json \<Rightarrow> client_idx \<Rightarrow> exn + client_idx" where
  "dispatch_idx played message s =
     (case getProp message ''type'' of
        Inl e \<Rightarrow> Inl e
      | Inr ty \<Rightarrow>
         (let s0 = logReceived ty message s in
          if ty = Val (JStr ''turn.start'') then Inr (turnStartArm_idx message s0)
          else if ty = Val (JStr ''response.audio'') then responseAudioArm_idx played message s0
          else if ty = Val (JStr ''response.data'') then Inr (responseDataArm message s0)
          else Inr (defaultArm message s0)))"

definition handleWebSocketMessage_idx ::
  "exn + nat list \<Rightarrow> json option \<Rightarrow> client_idx \<Rightarrow> client_idx" where
  "handleWebSocketMessage_idx played parsed s =
     (case parsed of
        None \<Rightarrow> catchMessage SyntaxError s
      | Some message \<Rightarrow>
         (case dispatch_idx played message s of
            Inl e \<Rightarrow> catchMessage e s
          | Inr s' \<Rightarrow> s'))"

section \<open>Speech detection (part_003)\<close>

text \<open>
  \<^verbatim>\<open>_setupAmplitudeBasedVAD\<close> (part_003 lines 149-183): a fresh closure with
  \<^verbatim>\<open>isSpeakingByAmplitude = false\<close> and \<^verbatim>\<open>silenceFrames = 0\<close> is registered with
  the recorder's amplitude monitoring, next to the closures registered before.
  \<open>AMPLITUDE_THRESHOLD\<close> is the double that the literal \<^verbatim>\<open>0.01\<close> denotes, the double
  nearest to one hundredth: 5764607523034235 / 2^59.
\<close>

definition AMPLITUDE_THRESHOLD :: real where
  "AMPLITUDE_THRESHOLD = 5764607523034235 / 576460752303423488"

definition SILENCE_FRAMES_THRESHOLD :: nat where
  "SILENCE_FRAMES_THRESHOLD = 30"

definition setupAmplitudeBasedVAD :: "client \<Rightarrow> client" where
  "setupAmplitudeBasedVAD s =
     emit RecorderStartAmplitudeMonitoring
       (s\<lparr>amplitudeVADs :=
            amplitudeVADs s @ [\<lparr>isSpeakingByAmplitude = False, silenceFrames = 0\<rparr>]\<rparr>)"

text \<open>The callback that the closure number \<open>k\<close> registered, run by the recorder with
  an amplitude. The recorder runs the callbacks of registered closures only.\<close>

definition amplitudeCallback :: "nat \<Rightarrow> real \<Rightarrow> client \<Rightarrow> client" where
  "amplitudeCallback k amplitude s =
     (if k < length (amplitudeVADs s) then
        (let v = amplitudeVADs s ! k;
             wasSpeaking = isSpeakingByAmplitude v in
         if amplitude > AMPLITUDE_THRESHOLD then
           (let v1 = v\<lparr>silenceFrames := 0\<rparr> in
            if \<not> wasSpeaking then
              wsSend (VadEvents vad_start)
                (emit (OnUserIsSpeakingChange True)
                   (s\<lparr>amplitudeVADs :=
                        (amplitudeVADs s)[k := v1\<lparr>isSpeakingByAmplitude := True\<rparr>],
                      userIsSpeaking := True\<rparr>))
            else s\<lparr>amplitudeVADs := (amplitudeVADs s)[k := v1]\<rparr>)
         else
           (let v1 = v\<lparr>silenceFrames := silenceFrames v + 1\<rparr> in
            if wasSpeaking \<and> silenceFrames v1 \<ge> SILENCE_FRAMES_THRESHOLD then
              wsSend (VadEvents vad_end)
                (emit (OnUserIsSpeakingChange False)
                   (s\<lparr>amplitudeVADs :=
                        (amplitudeVADs s)[k := v1\<lparr>isSpeakingByAmplitude := False\<rparr>],
                      userIsSpeaking := False\<rparr>))
            else s\<lparr>amplitudeVADs := (amplitudeVADs s)[k := v1]\<rparr>))
      else s)"

text \<open>
  \<^verbatim>\<open>_initializeVAD\<close> (part_003 lines 185-310), up to its return: outside push-to-talk
  a 2000 ms timer of this call is armed and \<^verbatim>\<open>MicVAD.new\<close> is called with the
  callbacks of one of two profiles. For the call number \<open>i\<close>: the promise's
  \<^verbatim>\<open>then\<close> is \<open>vadReady i\<close>, which clears timer \<open>i\<close> and no other; its \<^verbatim>\<open>catch\<close> is
  \<open>vadFailed\<close>, which clears none; the callback of the timer is \<open>vadTimeoutCallback\<close>.
\<close>

definition initializeVAD :: "client \<Rightarrow> client" where
  "initializeVAD s =
     (let s0 = emit (Console Log [AText ''initializing VAD'',
                  AFlags [(''pushToTalkEnabled'', pushToTalkEnabled s),
                          (''canInterrupt'', canInterrupt s)]]) s
      in if pushToTalkEnabled s0 then s0
         else emit (VadNew (if \<not> canInterrupt s0 then NonInterruptible else Interruptible))
                (emit (SetTimeout 2000)
                   (s0\<lparr>vadTimeouts := insert (vadInits s0) (vadTimeouts s0),
                       vadInits := vadInits s0 + 1\<rparr>)))"

definition vadReady :: "nat \<Rightarrow> client \<Rightarrow> client" where
  "vadReady i s =
     emit (Console Log [AText ''VAD started''])
       (emit VadStart
          (emit ClearTimeout (s\<lparr>vadTimeouts := vadTimeouts s - {i}, vad := True\<rparr>)))"

definition vadFailed :: "exn \<Rightarrow> client \<Rightarrow> client" where
  "vadFailed e s = emit (Console Error [AText ''Error initializing VAD:'', AExn e]) s"

definition vadTimeoutCallback :: "client \<Rightarrow> client" where
  "vadTimeoutCallback s =
     (let s1 = emit (Console Warn
                  [AText ''VAD model failed to load - falling back to amplitude-based detection''])
                 (emit (Console Log [AText ''silero vad model timeout'']) s);
          s2 = wsSend (VadEvents vad_model_failed) s1;
          s3 = emit (OnUserIsSpeakingChange False) (s2\<lparr>userIsSpeaking := False\<rparr>)
      in setupAmplitudeBasedVAD s3)"

text \<open>The callbacks of the profile chosen when \<^verbatim>\<open>canInterrupt\<close> is false
  (part_003 lines 219-242).\<close>

definition onSpeechStart_ni :: "client \<Rightarrow> client" where
  "onSpeechStart_ni s =
     wsSend (VadEvents vad_start)
       (emit (Console Log [AText ''onSpeechStart: sending vad_start''])
          (emit (OnUserIsSpeakingChange True) (s\<lparr>userIsSpeaking := True\<rparr>)))"

definition onSpeechEnd_ni :: "client \<Rightarrow> client" where
  "onSpeechEnd_ni s =
     (let s1 = emit (Console Log [AText ''onSpeechEnd: sending vad_end'']) s;
          s2 = s1\<lparr>userIsSpeaking := False, endUserTurn := True, audioBuffer := []\<rparr>;
          s3 = emit (Console Log [AText ''onSpeechEnd: State after update'',
                       AFlags [(''endUserTurn'', endUserTurn s2),
                               (''userIsSpeaking'', userIsSpeaking s2)]])
                 (emit (OnUserIsSpeakingChange False) s2)
      in (wsSend (VadEvents vad_end) s3)\<lparr>endUserTurn := False\<rparr>)"

text \<open>The callbacks of the profile chosen when \<^verbatim>\<open>canInterrupt\<close> is true
  (part_003 lines 262-298). \<open>resumeTimerCallback\<close> is the callback of the timer that
  \<^verbatim>\<open>onVADMisfire\<close> arms; \<open>isPlaying\<close> is \<^verbatim>\<open>wavPlayer.isPlaying\<close> when it runs.\<close>

definition onSpeechStart :: "client \<Rightarrow> client" where
  "onSpeechStart s =
     (let s1 = wsSend (VadEvents vad_start)
                 (emit (Console Log [AText ''onSpeechStart: sending vad_start'']) s);
          s2 = emit (OnUserIsSpeakingChange True) (s1\<lparr>userIsSpeaking := True\<rparr>);
          s3 = s2\<lparr>endUserTurn := False\<rparr>
      in emit (Console Log [AText ''onSpeechStart: State after update'',
                 AFlags [(''endUserTurn'', endUserTurn s3),
                         (''userIsSpeaking'', userIsSpeaking s3)]]) s3)"

definition onVADMisfire :: "client \<Rightarrow> client" where
  "onVADMisfire s =
     (let s1 = emit (OnUserIsSpeakingChange False)
                 (s\<lparr>userIsSpeaking := False, audioBuffer := []\<rparr>)
      in emit (SetTimeout (vadResumeDelay s1)) (s1\<lparr>resumeTimers := resumeTimers s1 + 1\<rparr>))"

definition resumeTimerCallback :: "bool \<Rightarrow> client \<Rightarrow> client" where
  "resumeTimerCallback isPlaying s =
     (let s1 = s\<lparr>resumeTimers := resumeTimers s - 1\<rparr> in
      if \<not> isPlaying then
        emit (Console Log [AText ''onVADMisfire: Resuming after delay'']) s1
      else
        (emit (Console Log
           [AText ''onVADMisfire: Not resuming - either no pause or user speaking again'']) s1)
        \<lparr>endUserTurn := True\<rparr>)"

definition onSpeechEnd :: "client \<Rightarrow> client" where
  "onSpeechEnd s =
     (let s1 = emit (Console Log [AText ''onSpeechEnd: sending vad_end'']) s;
          s2 = s1\<lparr>userIsSpeaking := False, endUserTurn := True, audioBuffer := []\<rparr>
      in wsSend (VadEvents vad_end) (emit (OnUserIsSpeakingChange False) s2))"

section \<open>Speech detection (src/index.ts)\<close>

text \<open>The callbacks of the profile chosen when \<^verbatim>\<open>canInterrupt\<close> is true
  (index.ts lines 177-210); \<open>isPlaying\<close> is \<^verbatim>\<open>wavPlayer.isPlaying\<close> when the callback
  runs.\<close>

definition onSpeechStart_idx :: "bool \<Rightarrow> client_idx \<Rightarrow> client_idx" where
  "onSpeechStart_idx isPlaying s =
     (let s1 = (if isPlaying then
                  (emit PlayerPause
                     (emit (Console Log [AText ''onSpeechStart: WavPlayer is playing, pausing it.'']) s))
                  \<lparr>vadPausedPlayer := True\<rparr>
                else
                  emit (Console Log
                    [AText ''onSpeechStart: WavPlayer is not playing, VAD will not pause.'']) s);
          s2 = s1\<lparr>userIsSpeaking := True\<rparr>
      in wsSend (VadEvents vad_start)
           (emit (Console Log [AText ''onSpeechStart: sending vad_start'']) s2))"

definition onVADMisfire_idx :: "client_idx \<Rightarrow> client_idx" where
  "onVADMisfire_idx s =
     (let s1 = s\<lparr>userIsSpeaking := False\<rparr> in
      if vadPausedPlayer s1 then
        (emit PlayerPlay
           (emit (Console Log [AText ''onSpeechEnd: VAD paused the player, resuming'']) s1))
        \<lparr>vadPausedPlayer := False\<rparr>
      else
        emit (Console Log
          [AText ''onVADMisfire: VAD did not pause the player, no action taken to resume.'']) s1)"

definition onSpeechEnd_idx :: "client_idx \<Rightarrow> client_idx" where
  "onSpeechEnd_idx s = wsSend (VadEvents vad_end) (s\<lparr>userIsSpeaking := False\<rparr>)"

section \<open>Connection lifecycle (part_003)\<close>

text \<open>\<^verbatim>\<open>_sendReadyIfNeeded\<close> (part_003 lines 486-491).\<close>

definition sendReadyIfNeeded :: "client \<Rightarrow> client" where
  "sendReadyIfNeeded s =
     (if recorderStarted s \<and> wsOpen s \<and> \<not> readySent s
      then (wsSend ClientReady s)\<lparr>readySent := True\<rparr>
      else s)"

text \<open>\<^verbatim>\<open>_resetTurnTracking\<close>.\<close>

definition resetTurnTracking :: "client \<Rightarrow> client" where
  "resetTurnTracking s =
     emit (Console Log [AText ''Reset turn tracking state'']) (s\<lparr>currentTurnId := Val JNull\<rparr>)"

text \<open>
  What the authorization request comes back with: a failure (the request is rejected,
  the response is not ok, or its body does not parse), or the \<^verbatim>\<open>session_id\<close>, the
  \<^verbatim>\<open>config.transcription.trigger\<close> and the \<^verbatim>\<open>can_interrupt\<close> of the body.
\<close>

datatype authReply = AuthFailed | AuthOk jsval string bool

text \<open>The \<^verbatim>\<open>catch\<close> arm of \<^verbatim>\<open>connect\<close>; it throws the error again to the caller.\<close>

definition connect_catch :: "exn \<Rightarrow> client \<Rightarrow> client" where
  "connect_catch e s =
     emit (OnError e)
       (setStatus ''error''
          (emit (Console Error [AText ''Error connecting to Layercode pipeline:'', AExn e]) s))"

text \<open>
  \<^verbatim>\<open>connect\<close> (part_003 lines 521-609) is an \<^verbatim>\<open>async\<close> function; each definition
  below is the stretch of its body between two \<^verbatim>\<open>await\<close>s: up to the request
  (\<open>connect_start\<close>), from the answer up to \<^verbatim>\<open>wavRecorder.begin()\<close>
  (\<open>connect_authorized\<close>), up to \<^verbatim>\<open>wavRecorder.record\<close> (\<open>connect_begun\<close>), up to
  \<^verbatim>\<open>wavPlayer.connect()\<close> (\<open>connect_recording\<close>), and the rest (\<open>connect_finish\<close>).
  The socket's handlers run as events of their own.
\<close>

definition connect_start :: "client \<Rightarrow> client" where
  "connect_start s = emit Fetch (resetTurnTracking (setStatus ''connecting'' s))"

definition connect_authorized :: "authReply \<Rightarrow> client \<Rightarrow> client" where
  "connect_authorized r s =
     (case r of
        AuthFailed \<Rightarrow> connect_catch AuthorizeError s
      | AuthOk sid trigger can_interrupt \<Rightarrow>
         (let s1 = emit (Console Log [AText ''config'', AText trigger,
                           AFlags [(''can_interrupt'', can_interrupt)]])
                     (emit WsNew (s\<lparr>sessionId := sid, ws := Some CONNECTING\<rparr>))
          in
          if trigger = ''push_to_talk'' then
            emit RecorderBegin (initializeVAD (s1\<lparr>pushToTalkEnabled := True\<rparr>))
          else if trigger = ''automatic'' then
            emit RecorderBegin
              (initializeVAD (s1\<lparr>pushToTalkEnabled := False, canInterrupt := can_interrupt\<rparr>))
          else connect_catch UnknownTrigger s1))"

definition connect_begun :: "client \<Rightarrow> client" where
  "connect_begun s = emit RecorderRecord s"

definition connect_recording :: "client \<Rightarrow> client" where
  "connect_recording s = emit PlayerConnect (emit RecorderStartAmplitudeMonitoring s)"

definition connect_finish :: "client \<Rightarrow> client" where
  "connect_finish s =
     sendReadyIfNeeded ((emit PlayerStartAmplitudeMonitoring s)\<lparr>recorderStarted := True\<rparr>)"

text \<open>The handlers \<^verbatim>\<open>connect\<close> binds to the socket (part_003 lines 570-587).\<close>

definition onopen :: "client \<Rightarrow> client" where
  "onopen s =
     sendReadyIfNeeded
       (emit OnConnect
          (setStatus ''connected''
             (emit (Console Log [AText ''WebSocket connection established'']) s)))"

definition onclose :: "client \<Rightarrow> client" where
  "onclose s =
     emit OnDisconnect
       (setStatus ''disconnected''
          (emit (Console Log [AText ''WebSocket connection closed'']) s))"

definition onerror :: "client \<Rightarrow> client" where
  "onerror s =
     emit (OnError Rejected)
       (setStatus ''error'' (emit (Console Error [AText ''WebSocket error:'']) s))"

text \<open>
  \<^verbatim>\<open>disconnect\<close> (part_003 lines 616-636). \<^verbatim>\<open>ws.close()\<close> moves a socket that is
  connecting or open to \<^verbatim>\<open>CLOSING\<close>; the field \<^verbatim>\<open>this.ws\<close> keeps the socket.
\<close>

definition wsClose :: "client \<Rightarrow> client" where
  "wsClose s =
     emit WsClose
       (s\<lparr>ws := (case ws s of
                   Some CONNECTING \<Rightarrow> Some CLOSING
                 | Some OPEN \<Rightarrow> Some CLOSING
                 | r \<Rightarrow> r)\<rparr>)"

definition disconnect :: "client \<Rightarrow> client" where
  "disconnect s =
     (let s1 = (if vad s then (emit VadDestroy (emit VadPause s))\<lparr>vad := False\<rparr> else s);
          s2 = resetTurnTracking (emit PlayerDisconnect (emit RecorderQuit s1))
      in if ws s2 \<noteq> None
         then emit OnDisconnect (setStatus ''disconnected'' (wsClose s2))
         else s2)"

section \<open>Runs of the client (part_003)\<close>

text \<open>
  Everything that can happen to a client: the calls of its public methods, the stretches
  of \<^verbatim>\<open>connect\<close>, the callbacks its collaborators run, the resumption of a suspended
  interruption routine (\<open>InterruptResolved\<close>, with what \<^verbatim>\<open>wavPlayer.interrupt()\<close>
  resolved to), and \<open>SocketState\<close>, the browser moving the socket to another
  \<^verbatim>\<open>readyState\<close>. The callback of a timer runs only while that timer is armed, and
  disarms it; an interruption routine resumes only if one is suspended; the recorder
  runs the callbacks of registered closures only. Apart from that a run does not
  constrain the order of events: every schedule of the real client is a run. \<open>enc\<close> is
  \<^verbatim>\<open>arrayBufferToBase64\<close>, \<open>mul\<close> the multiplication of doubles.
\<close>

datatype event =
    DataAvailable pcm
  | Message "exn + nat list" "json option"
  | SocketState readyState
  | OnOpenEv
  | OnCloseEv
  | OnErrorEv
  | SpeechStart profile
  | SpeechEnd profile
  | Misfire
  | ResumeTimer bool
  | VadReady nat
  | VadFailed
  | VadTimeout nat
  | Amplitude nat real
  | FinishedPlaying
  | TurnStarted
  | TurnFinished
  | ConnectStart
  | ConnectAuthorized authReply
  | ConnectBegun
  | ConnectRecording
  | ConnectFinish
  | ConnectCatch
  | Disconnect
  | InterruptResolved "offsetData option"

fun step ::
  "(pcm \<Rightarrow> string) \<Rightarrow> (real \<Rightarrow> real \<Rightarrow> real) \<Rightarrow> event \<Rightarrow> client \<Rightarrow> client" where
  "step enc mul (DataAvailable chunk) s = handleDataAvailable enc chunk s"
| "step enc mul (Message played parsed) s = handleWebSocketMessage played parsed s"
| "step enc mul (SocketState r) s = (if ws s = None then s else s\<lparr>ws := Some r\<rparr>)"
| "step enc mul OnOpenEv s = onopen s"
| "step enc mul OnCloseEv s = onclose s"
| "step enc mul OnErrorEv s = onerror s"
| "step enc mul (SpeechStart NonInterruptible) s = onSpeechStart_ni s"
| "step enc mul (SpeechStart Interruptible) s = onSpeechStart s"
| "step enc mul (SpeechEnd NonInterruptible) s = onSpeechEnd_ni s"
| "step enc mul (SpeechEnd Interruptible) s = onSpeechEnd s"
| "step enc mul Misfire s = onVADMisfire s"
| "step enc mul (ResumeTimer isPlaying) s =
     (if resumeTimers s > 0 then resumeTimerCallback isPlaying s else s)"
| "step enc mul (VadReady i) s = vadReady i s"
| "step enc mul VadFailed s = vadFailed Rejected s"
| "step enc mul (VadTimeout i) s =
     (if i \<in> vadTimeouts s
      then vadTimeoutCallback (s\<lparr>vadTimeouts := vadTimeouts s - {i}\<rparr>)
      else s)"
| "step enc mul (Amplitude k a) s = amplitudeCallback k a s"
| "step enc mul FinishedPlaying s = clientResponseAudioReplayFinished s"
| "step enc mul TurnStarted s = triggerUserTurnStarted s"
| "step enc mul TurnFinished s = triggerUserTurnFinished s"
| "step enc mul ConnectStart s = connect_start s"
| "step enc mul (ConnectAuthorized r) s = connect_authorized r s"
| "step enc mul ConnectBegun s = connect_begun s"
| "step enc mul ConnectRecording s = connect_recording s"
| "step enc mul ConnectFinish s = connect_finish s"
| "step enc mul ConnectCatch s = connect_catch Rejected s"
| "step enc mul Disconnect s = disconnect s"
| "step enc mul (InterruptResolved od) s =
     (if pendingInterrupts s > 0
      then interruptResume mul od (s\<lparr>pendingInterrupts := pendingInterrupts s - 1\<rparr>)
      else s)"

fun run ::
  "(pcm \<Rightarrow> string) \<Rightarrow> (real \<Rightarrow> real \<Rightarrow> real) \<Rightarrow> event list \<Rightarrow> client \<Rightarrow> client" where
  "run enc mul [] s = s"
| "run enc mul (e # es) s = run enc mul es (step enc mul e s)"

section \<open>Observations on traces\<close>

text \<open>The contents of the audio frames a trace put on the socket, in order.\<close>

fun audioOf :: "effect \<Rightarrow> string list" where
  "audioOf (WsSend (ClientAudio c)) = [c]"
| "audioOf e = []"

definition audioSent :: "effect list \<Rightarrow> string list" where
  "audioSent tr = concat (map audioOf tr)"

text \<open>The chunks the recorder delivered during a run, in order.\<close>

fun captured :: "event list \<Rightarrow> pcm list" where
  "captured [] = []"
| "captured (DataAvailable chunk # es) = chunk # captured es"
| "captured (e # es) = captured es"

text \<open>The number of \<^verbatim>\<open>client.ready\<close> frames a trace put on the socket.\<close>

fun readyOf :: "effect \<Rightarrow> nat" where
  "readyOf (WsSend ClientReady) = 1"
| "readyOf e = 0"

definition readyCount :: "effect list \<Rightarrow> nat" where
  "readyCount tr = sum_list (map readyOf tr)"

text \<open>A step is quiet when it puts neither audio nor the ready notice on the socket,
  keeps the flag of the ready notice and the closures of the amplitude detectors, and
  keeps or empties the buffer.\<close>

definition quiet :: "client \<Rightarrow> client \<Rightarrow> bool" where
  "quiet s s' \<longleftrightarrow>
     audioSent (trace s') = audioSent (trace s) \<and> readyCount (trace s') = readyCount (trace s) \<and>
     (audioBuffer s' = audioBuffer s \<or> audioBuffer s' = []) \<and> readySent s' = readySent s \<and>
     amplitudeVADs s' = amplitudeVADs s"

text \<open>The ready frames per socket: one count for each \<open>WsNew\<close> of the trace, over the
  effects up to the next \<open>WsNew\<close>.\<close>

fun segments :: "effect list \<Rightarrow> effect list list" where
  "segments [] = []"
| "segments (e # tr) =
     (if e = WsNew then takeWhile (\<lambda>x. x \<noteq> WsNew) tr # segments tr else segments tr)"

definition readyPerSocket :: "effect list \<Rightarrow> nat list" where
  "readyPerSocket tr = map readyCount (segments tr)"

text \<open>The invariant of the buffer: at most 10 entries, and the frames sent so far
  followed by the buffered chunks are, in order, among the encoded chunks \<open>cs\<close>
  captured so far.\<close>

definition bufferInv :: "(pcm \<Rightarrow> string) \<Rightarrow> pcm list \<Rightarrow> client \<Rightarrow> bool" where
  "bufferInv enc cs s \<longleftrightarrow>
     length (audioBuffer s) \<le> 10 \<and>
     subseq (audioSent (trace s) @ audioBuffer s) (map enc cs)"

text \<open>The invariant of the ready notice: it is on the wire once if the flag is set and
  not at all if it is not.\<close>

definition readyInv :: "client \<Rightarrow> bool" where
  "readyInv s \<longleftrightarrow> readyCount (trace s) = (if readySent s then 1 else 0)"

text \<open>The amplitudes the recorder reported to the closure number \<open>k\<close> during a run,
  in order.\<close>

fun amplitudes :: "nat \<Rightarrow> event list \<Rightarrow> real list" where
  "amplitudes k [] = []"
| "amplitudes k (Amplitude j amplitude # es) =
     (if j = k then amplitude # amplitudes k es else amplitudes k es)"
| "amplitudes k (e # es) = amplitudes k es"

text \<open>The number of frames at the end of \<open>frames\<close> that do not exceed the threshold.\<close>

definition trailingSilence :: "real list \<Rightarrow> nat" where
  "trailingSilence frames =
     length (takeWhile (\<lambda>amplitude. \<not> amplitude > AMPLITUDE_THRESHOLD) (rev frames))"

section \<open>Basic facts\<close>

lemma audioSent_simps [simp]:
  "audioSent [] = []"
  "audioSent (xs @ ys) = audioSent xs @ audioSent ys"
  "audioSent (e # xs) = audioOf e @ audioSent xs"
  by (simp_all add: audioSent_def)

lemma readyCount_simps [simp]:
  "readyCount [] = 0"
  "readyCount (xs @ ys) = readyCount xs + readyCount ys"
  "readyCount (e # xs) = readyOf e + readyCount xs"
  by (simp_all add: readyCount_def)

lemma audioSent_map_audio [simp]:
  "audioSent (map (\<lambda>b. WsSend (ClientAudio b)) bs) = bs"
  by (induction bs) simp_all

lemma readyCount_map_audio [simp]:
  "readyCount (map (\<lambda>b. WsSend (ClientAudio b)) bs) = 0"
  by (induction bs) simp_all

lemma audioOf_WsSend: "audioOf (WsSend m) = (case m of ClientAudio c \<Rightarrow> [c] | _ \<Rightarrow> [])"
  by (cases m) simp_all

lemma readyOf_WsSend: "readyOf (WsSend m) = (if m = ClientReady then 1 else 0)"
  by (cases m) simp_all

lemma trace_emit [simp]: "trace (emit e s) = trace s @ [e]"
  by (simp add: emit_def)

lemma emit_fields [simp]:
  "ws (emit e s) = ws s" "status (emit e s) = status s" "vad (emit e s) = vad s"
  "pushToTalkActive (emit e s) = pushToTalkActive s"
  "pushToTalkEnabled (emit e s) = pushToTalkEnabled s"
  "canInterrupt (emit e s) = canInterrupt s"
  "userIsSpeaking (emit e s) = userIsSpeaking s"
  "core.more (emit e s) = core.more s"
  "wsOpen (emit e s) = wsOpen s"
  by (simp_all add: emit_def wsOpen_def)

lemma wsSend_eq:
  "wsSend m s = s\<lparr>trace := trace s @
      (if msg_type m = ''client.audio'' then [] else [Console Log [AText ''sent ws msg:'', AMsg m]])
      @ (if wsOpen s then [WsSend m] else [])\<rparr>"
  by (simp add: wsSend_def Let_def emit_def wsOpen_def)

lemma wsSend_fields [simp]:
  "ws (wsSend m s) = ws s" "status (wsSend m s) = status s" "vad (wsSend m s) = vad s"
  "pushToTalkActive (wsSend m s) = pushToTalkActive s"
  "pushToTalkEnabled (wsSend m s) = pushToTalkEnabled s"
  "canInterrupt (wsSend m s) = canInterrupt s"
  "userIsSpeaking (wsSend m s) = userIsSpeaking s"
  "core.more (wsSend m s) = core.more s"
  "wsOpen (wsSend m s) = wsOpen s"
  by (simp_all add: wsSend_eq wsOpen_def)

lemma trace_wsSend [simp]:
  "trace (wsSend m s) = trace s @
      (if msg_type m = ''client.audio'' then [] else [Console Log [AText ''sent ws msg:'', AMsg m]])
      @ (if wsOpen s then [WsSend m] else [])"
  by (simp add: wsSend_eq)

lemma client_fields_emit [simp]:
  "audioBuffer (emit e s) = audioBuffer s" "readySent (emit e s) = readySent s"
  "recorderStarted (emit e s) = recorderStarted s" "currentTurnId (emit e s) = currentTurnId s"
  "endUserTurn (emit e s) = endUserTurn s" "amplitudeVADs (emit e s) = amplitudeVADs s"
  "resumeTimers (emit e s) = resumeTimers s" "vadResumeDelay (emit e s) = vadResumeDelay s"
  "sessionId (emit e s) = sessionId s" "vadTimeouts (emit e s) = vadTimeouts s"
  "vadInits (emit e s) = vadInits s" "pendingInterrupts (emit e s) = pendingInterrupts s"
  by (simp_all add: emit_def)

lemma client_fields_wsSend [simp]:
  "audioBuffer (wsSend m s) = audioBuffer s" "readySent (wsSend m s) = readySent s"
  "recorderStarted (wsSend m s) = recorderStarted s" "currentTurnId (wsSend m s) = currentTurnId s"
  "endUserTurn (wsSend m s) = endUserTurn s" "amplitudeVADs (wsSend m s) = amplitudeVADs s"
  "resumeTimers (wsSend m s) = resumeTimers s" "vadResumeDelay (wsSend m s) = vadResumeDelay s"
  "sessionId (wsSend m s) = sessionId s" "vadTimeouts (wsSend m s) = vadTimeouts s"
  "vadInits (wsSend m s) = vadInits s" "pendingInterrupts (wsSend m s) = pendingInterrupts s"
  by (simp_all add: wsSend_eq)

lemma setStatus_simps [simp]:
  "trace (setStatus st s) = trace s @ [OnStatusChange st]"
  "ws (setStatus st s) = ws s" "status (setStatus st s) = st" "vad (setStatus st s) = vad s"
  "wsOpen (setStatus st s) = wsOpen s"
  "audioBuffer (setStatus st s) = audioBuffer s" "readySent (setStatus st s) = readySent s"
  "recorderStarted (setStatus st s) = recorderStarted s"
  "currentTurnId (setStatus st s) = currentTurnId s"
  "amplitudeVADs (setStatus st s) = amplitudeVADs s"
  by (simp_all add: setStatus_def wsOpen_def)

lemma sendBuffered_eq:
  "sendBuffered bs s =
     s\<lparr>trace := trace s @ (if wsOpen s then map (\<lambda>b. WsSend (ClientAudio b)) bs else [])\<rparr>"
  by (induction bs arbitrary: s) (simp_all add: wsSend_eq wsOpen_def)

section \<open>The audio gate\<close>

lemma handleDataAvailable_send:
  "sendAudio s \<Longrightarrow> handleDataAvailable enc chunk s =
     s\<lparr>trace := trace s @
          (if audioBuffer s = [] then []
           else [Console Log [AText ''Sending buffered audio chunks'', ANat (length (audioBuffer s))]])
          @ (if wsOpen s then map (\<lambda>b. WsSend (ClientAudio b)) (audioBuffer s @ [enc chunk]) else []),
       audioBuffer := []\<rparr>"
  by (simp add: handleDataAvailable_def Let_def sendBuffered_eq wsSend_eq wsOpen_def emit_def)

lemma handleDataAvailable_buffer:
  "\<not> sendAudio s \<Longrightarrow> handleDataAvailable enc chunk s =
     s\<lparr>audioBuffer := (if length (audioBuffer s) < 10 then audioBuffer s @ [enc chunk]
                        else tl (audioBuffer s @ [enc chunk]))\<rparr>"
  by (simp add: handleDataAvailable_def Let_def)


section \<open>Quiet handlers\<close>

lemma quiet_refl [simp]: "quiet s s"
  by (simp add: quiet_def)

lemma quiet_logReceived [simp]: "quiet s (logReceived ty m s)"
  by (simp add: quiet_def logReceived_def)

lemma quiet_trans: "quiet s t \<Longrightarrow> quiet t u \<Longrightarrow> quiet s u"
  by (auto simp: quiet_def)

lemma quiet_interrupt:
  "quiet s (clientInterruptAssistantReplay s)"
  "quiet s (interruptResume mul od s)"
  "quiet s (s\<lparr>pendingInterrupts := n\<rparr>)"
  by (simp_all add: quiet_def clientInterruptAssistantReplay_def interruptResume_def Let_def
        split: option.split)

lemma quiet_arms:
  "quiet s (turnStartArm m s)"
  "quiet s (responseDataArm m s)"
  "quiet s (defaultArm m s)"
  "case responseAudioArm played m s of Inl e \<Rightarrow> True | Inr s' \<Rightarrow> quiet s s'"
  "case responseTextArm m s of Inl e \<Rightarrow> True | Inr s' \<Rightarrow> quiet s s'"
  by (simp_all add: quiet_def turnStartArm_def responseDataArm_def defaultArm_def
        responseAudioArm_def responseTextArm_def clientInterruptAssistantReplay_def
        interruptResume_def Let_def split: sum.split option.split)

lemma quiet_dispatch:
  "case dispatch played m s of Inl e \<Rightarrow> True | Inr s' \<Rightarrow> quiet s s'"
proof (cases "getProp m ''type''")
  case (Inl e)
  then show ?thesis by (simp add: dispatch_def)
next
  case (Inr ty)
  define s0 where "s0 = logReceived ty m s"
  have q0: "quiet s s0" by (simp add: s0_def)
  have lift: "\<And>t. quiet s0 t \<Longrightarrow> quiet s t"
    using q0 by (rule quiet_trans)
  have audio: "case responseAudioArm played m s0 of Inl e \<Rightarrow> True | Inr s' \<Rightarrow> quiet s s'"
    using quiet_arms(4) [where played = played and m = m and s = s0] lift
    by (simp split: sum.splits)
  have textArm: "case responseTextArm m s0 of Inl e \<Rightarrow> True | Inr s' \<Rightarrow> quiet s s'"
    using quiet_arms(5) [where m = m and s = s0] lift
    by (simp split: sum.splits)
  show ?thesis
    using Inr audio textArm lift [OF quiet_arms(1)] lift [OF quiet_arms(2)] lift [OF quiet_arms(3)]
    by (simp add: dispatch_def Let_def s0_def [symmetric])
qed

lemma quiet_handleWebSocketMessage: "quiet s (handleWebSocketMessage played parsed s)"
proof (cases parsed)
  case None
  then show ?thesis by (simp add: handleWebSocketMessage_def catchMessage_def quiet_def)
next
  case (Some m)
  then show ?thesis
    using quiet_dispatch [where played = played and m = m and s = s]
    by (simp add: handleWebSocketMessage_def catchMessage_def split: sum.splits)
       (simp add: quiet_def)
qed

lemma quiet_vad:
  "quiet s (onSpeechStart_ni s)" "quiet s (onSpeechStart s)"
  "quiet s (onSpeechEnd_ni s)" "quiet s (onSpeechEnd s)"
  "quiet s (onVADMisfire s)" "quiet s (resumeTimerCallback p s)"
  "quiet s (vadReady i s)" "quiet s (vadFailed e s)" "quiet s (initializeVAD s)"
  by (simp_all add: quiet_def onSpeechStart_ni_def onSpeechStart_def onSpeechEnd_ni_def
        onSpeechEnd_def onVADMisfire_def resumeTimerCallback_def vadReady_def vadFailed_def
        initializeVAD_def Let_def)

lemma quiet_data: "amplitudeVADs (handleDataAvailable enc chunk s) = amplitudeVADs s"
  by (cases "sendAudio s") (simp_all add: handleDataAvailable_send handleDataAvailable_buffer)

lemma quiet_ready: "amplitudeVADs (sendReadyIfNeeded s) = amplitudeVADs s"
  by (simp add: sendReadyIfNeeded_def)

lemma quiet_socket:
  "quiet s (onclose s)" "quiet s (onerror s)" "quiet s (connect_catch e s)"
  "quiet s (connect_start s)" "quiet s (connect_begun s)" "quiet s (connect_recording s)"
  "quiet s (disconnect s)" "quiet s (clientResponseAudioReplayFinished s)"
  "quiet s (triggerUserTurnFinished s)" "quiet s (triggerUserTurnStarted s)"
  by (simp_all add: quiet_def onclose_def onerror_def connect_catch_def connect_start_def
        connect_begun_def connect_recording_def disconnect_def wsClose_def resetTurnTracking_def
        clientResponseAudioReplayFinished_def triggerUserTurnFinished_def
        triggerUserTurnStarted_def clientInterruptAssistantReplay_def interruptResume_def
        Let_def split: option.split)

lemma quiet_connect_authorized: "quiet s (connect_authorized r s)"
proof (cases r)
  case AuthFailed
  then show ?thesis by (simp add: connect_authorized_def quiet_socket)
next
  case (AuthOk sid trigger ci)
  have a: "quiet s (s\<lparr>sessionId := sid, ws := Some CONNECTING\<rparr>)"
    by (simp add: quiet_def)
  show ?thesis
    using AuthOk
    by (simp add: connect_authorized_def Let_def quiet_def connect_catch_def initializeVAD_def)
qed

section \<open>Invariants of runs\<close>

lemma captured_Cons: "captured (e # es) = captured [e] @ captured es"
  by (cases e) simp_all

lemma quiet_bufferInv:
  assumes "quiet s s'" and "bufferInv enc cs s"
  shows "bufferInv enc cs s'"
proof -
  from assms(1) have sent: "audioSent (trace s') = audioSent (trace s)"
    and buf: "audioBuffer s' = audioBuffer s \<or> audioBuffer s' = []"
    by (simp_all add: quiet_def)
  from assms(2) have len: "length (audioBuffer s) \<le> 10"
    and sub: "subseq (audioSent (trace s) @ audioBuffer s) (map enc cs)"
    by (simp_all add: bufferInv_def)
  from buf show ?thesis
  proof
    assume "audioBuffer s' = audioBuffer s"
    with sent len sub show ?thesis by (simp add: bufferInv_def)
  next
    assume e: "audioBuffer s' = []"
    have "subseq (audioSent (trace s)) (audioSent (trace s) @ audioBuffer s)"
      by (rule prefix_imp_subseq) simp
    then have "subseq (audioSent (trace s)) (map enc cs)"
      using sub by (rule subseq_order.trans)
    with e sent show ?thesis by (simp add: bufferInv_def)
  qed
qed

lemma subseq_snoc_tl: "subseq (xs @ tl (ys @ [y])) (zs @ [y])" if "subseq (xs @ ys) zs"
proof -
  have "subseq (tl (ys @ [y])) (ys @ [y])"
    by (rule suffix_imp_subseq) (rule suffix_tl)
  then have "subseq (xs @ tl (ys @ [y])) (xs @ ys @ [y])"
    by (simp add: subseq_append')
  moreover have "subseq (xs @ ys @ [y]) (zs @ [y])"
    using that list_emb_append_mono [of "(=)" "xs @ ys" zs "[y]" "[y]"] by simp
  ultimately show ?thesis by (rule subseq_order.trans)
qed

lemma data_bufferInv:
  assumes "bufferInv enc cs s"
  shows "bufferInv enc (cs @ [chunk]) (handleDataAvailable enc chunk s)"
proof (cases "sendAudio s")
  case True
  from assms have sub: "subseq (audioSent (trace s) @ audioBuffer s) (map enc cs)"
    by (simp add: bufferInv_def)
  have full: "subseq (audioSent (trace s) @ audioBuffer s @ [enc chunk]) (map enc cs @ [enc chunk])"
    using sub list_emb_append_mono [of "(=)" "audioSent (trace s) @ audioBuffer s" "map enc cs" "[enc chunk]" "[enc chunk]"]
    by simp
  have none: "subseq (audioSent (trace s)) (map enc cs @ [enc chunk])"
  proof -
    have "subseq (audioSent (trace s)) (audioSent (trace s) @ audioBuffer s @ [enc chunk])"
      by (rule prefix_imp_subseq) simp
    then show ?thesis using full by (rule subseq_order.trans)
  qed
  define h where "h = handleDataAvailable enc chunk s"
  have len: "length (audioBuffer h) \<le> 10"
    using True by (simp add: h_def handleDataAvailable_send)
  have obs: "audioSent (trace h) @ audioBuffer h =
      (if wsOpen s then audioSent (trace s) @ audioBuffer s @ [enc chunk] else audioSent (trace s))"
    using True by (simp add: h_def handleDataAvailable_send)
  have "subseq (audioSent (trace h) @ audioBuffer h) (map enc cs @ [enc chunk])"
  proof (cases "wsOpen s")
    case True
    with obs have "audioSent (trace h) @ audioBuffer h =
        audioSent (trace s) @ audioBuffer s @ [enc chunk]" by simp
    with full show ?thesis by (simp only:)
  next
    case False
    with obs have "audioSent (trace h) @ audioBuffer h = audioSent (trace s)" by simp
    with none show ?thesis by (simp only:)
  qed
  with len show ?thesis
    unfolding bufferInv_def h_def by (simp only: map_append list.map simp_thms)
next
  case False
  from assms have len: "length (audioBuffer s) \<le> 10"
    and sub: "subseq (audioSent (trace s) @ audioBuffer s) (map enc cs)"
    by (simp_all add: bufferInv_def)
  have keep: "subseq (audioSent (trace s) @ audioBuffer s @ [enc chunk]) (map enc cs @ [enc chunk])"
    using sub list_emb_append_mono [of "(=)" "audioSent (trace s) @ audioBuffer s" "map enc cs" "[enc chunk]" "[enc chunk]"]
    by simp
  define h where "h = handleDataAvailable enc chunk s"
  have sent: "audioSent (trace h) = audioSent (trace s)"
    using False by (simp add: h_def handleDataAvailable_buffer)
  show ?thesis
  proof (cases "length (audioBuffer s) < 10")
    case True
    with False have buf: "audioBuffer h = audioBuffer s @ [enc chunk]"
      by (simp add: h_def handleDataAvailable_buffer)
    from True buf have "length (audioBuffer h) \<le> 10" by simp
    moreover from keep sent buf
    have "subseq (audioSent (trace h) @ audioBuffer h) (map enc cs @ [enc chunk])"
      by (simp only:)
    ultimately show ?thesis
      unfolding bufferInv_def h_def by (simp only: map_append list.map simp_thms)
  next
    case ge: False
    with False have buf: "audioBuffer h = tl (audioBuffer s @ [enc chunk])"
      by (simp add: h_def handleDataAvailable_buffer)
    from len buf have "length (audioBuffer h) \<le> 10" by simp
    moreover from subseq_snoc_tl [OF sub, of "enc chunk"] sent buf
    have "subseq (audioSent (trace h) @ audioBuffer h) (map enc cs @ [enc chunk])"
      by (simp only:)
    ultimately show ?thesis
      unfolding bufferInv_def h_def by (simp only: map_append list.map simp_thms)
  qed
qed

lemma sendReady_bufferInv: "bufferInv enc cs s \<Longrightarrow> bufferInv enc cs (sendReadyIfNeeded s)"
  by (simp add: sendReadyIfNeeded_def bufferInv_def)

lemma onopen_bufferInv: "bufferInv enc cs s \<Longrightarrow> bufferInv enc cs (onopen s)"
  unfolding onopen_def by (rule sendReady_bufferInv) (simp add: bufferInv_def)

lemma connect_finish_bufferInv: "bufferInv enc cs s \<Longrightarrow> bufferInv enc cs (connect_finish s)"
  unfolding connect_finish_def by (rule sendReady_bufferInv) (simp add: bufferInv_def)

lemma step_bufferInv:
  "bufferInv enc cs s \<Longrightarrow> bufferInv enc (cs @ captured [e]) (step enc mul e s)"
proof (induction enc mul e s rule: step.induct)
  case (1 enc mul chunk s)
  then show ?case by (simp add: data_bufferInv)
next
  case (2 enc mul played parsed s)
  then show ?case using quiet_bufferInv [OF quiet_handleWebSocketMessage] by simp
next
  case (3 enc mul r s)
  then show ?case by (simp add: bufferInv_def)
next
  case (4 enc mul s)
  then show ?case by (simp add: onopen_bufferInv)
next
  case (15 enc mul i s)
  then show ?case
    by (simp add: bufferInv_def vadTimeoutCallback_def setupAmplitudeBasedVAD_def Let_def)
next
  case (16 enc mul k a s)
  then show ?case
    by (simp add: bufferInv_def amplitudeCallback_def Let_def)
next
  case (24 enc mul s)
  then show ?case by (simp add: connect_finish_bufferInv)
next
  case (27 enc mul od s)
  then show ?case
    using quiet_bufferInv [OF quiet_trans [OF quiet_interrupt(3) quiet_interrupt(2)]] by simp
qed (simp_all add: quiet_bufferInv [OF quiet_vad(1)] quiet_bufferInv [OF quiet_vad(2)]
      quiet_bufferInv [OF quiet_vad(3)] quiet_bufferInv [OF quiet_vad(4)]
      quiet_bufferInv [OF quiet_vad(5)] quiet_bufferInv [OF quiet_vad(6)]
      quiet_bufferInv [OF quiet_vad(7)] quiet_bufferInv [OF quiet_vad(8)]
      quiet_bufferInv [OF quiet_vad(9)]
      quiet_bufferInv [OF quiet_socket(1)] quiet_bufferInv [OF quiet_socket(2)]
      quiet_bufferInv [OF quiet_socket(3)] quiet_bufferInv [OF quiet_socket(4)]
      quiet_bufferInv [OF quiet_socket(5)] quiet_bufferInv [OF quiet_socket(6)]
      quiet_bufferInv [OF quiet_socket(7)] quiet_bufferInv [OF quiet_socket(8)]
      quiet_bufferInv [OF quiet_socket(9)] quiet_bufferInv [OF quiet_socket(10)]
      quiet_bufferInv [OF quiet_connect_authorized])

lemma run_bufferInv:
  "bufferInv enc cs s \<Longrightarrow> bufferInv enc (cs @ captured es) (run enc mul es s)"
proof (induction es arbitrary: cs s)
  case Nil
  then show ?case by simp
next
  case (Cons e es)
  from Cons.prems have "bufferInv enc (cs @ captured [e]) (step enc mul e s)"
    by (rule step_bufferInv)
  then have "bufferInv enc ((cs @ captured [e]) @ captured es) (run enc mul es (step enc mul e s))"
    by (rule Cons.IH)
  then show ?case by (simp add: captured_Cons [of e es])
qed

lemma init_bufferInv: "bufferInv enc [] (init sid delay)"
  by (simp add: bufferInv_def init_def)

lemma quiet_readyInv: "quiet s s' \<Longrightarrow> readyInv s \<Longrightarrow> readyInv s'"
  by (simp add: quiet_def readyInv_def)

lemma sendReady_readyInv: "readyInv s \<Longrightarrow> readyInv (sendReadyIfNeeded s)"
  by (simp add: sendReadyIfNeeded_def readyInv_def)

lemma data_readyInv: "readyInv s \<Longrightarrow> readyInv (handleDataAvailable enc chunk s)"
  by (cases "sendAudio s")
     (simp_all add: handleDataAvailable_send handleDataAvailable_buffer readyInv_def)

lemma onopen_readyInv: "readyInv s \<Longrightarrow> readyInv (onopen s)"
  unfolding onopen_def by (rule sendReady_readyInv) (simp add: readyInv_def)

lemma connect_finish_readyInv: "readyInv s \<Longrightarrow> readyInv (connect_finish s)"
  unfolding connect_finish_def by (rule sendReady_readyInv) (simp add: readyInv_def)

lemma step_readyInv: "readyInv s \<Longrightarrow> readyInv (step enc mul e s)"
proof (induction enc mul e s rule: step.induct)
  case (1 enc mul chunk s)
  then show ?case by (simp add: data_readyInv)
next
  case (2 enc mul played parsed s)
  then show ?case using quiet_readyInv [OF quiet_handleWebSocketMessage] by simp
next
  case (3 enc mul r s)
  then show ?case by (simp add: readyInv_def)
next
  case (4 enc mul s)
  then show ?case by (simp add: onopen_readyInv)
next
  case (15 enc mul i s)
  then show ?case
    by (simp add: readyInv_def vadTimeoutCallback_def setupAmplitudeBasedVAD_def Let_def)
next
  case (16 enc mul k a s)
  then show ?case
    by (simp add: readyInv_def amplitudeCallback_def Let_def)
next
  case (24 enc mul s)
  then show ?case by (simp add: connect_finish_readyInv)
next
  case (27 enc mul od s)
  then show ?case
    using quiet_readyInv [OF quiet_trans [OF quiet_interrupt(3) quiet_interrupt(2)]] by simp
qed (simp_all add: quiet_readyInv [OF quiet_vad(1)] quiet_readyInv [OF quiet_vad(2)]
      quiet_readyInv [OF quiet_vad(3)] quiet_readyInv [OF quiet_vad(4)]
      quiet_readyInv [OF quiet_vad(5)] quiet_readyInv [OF quiet_vad(6)]
      quiet_readyInv [OF quiet_vad(7)] quiet_readyInv [OF quiet_vad(8)]
      quiet_readyInv [OF quiet_vad(9)]
      quiet_readyInv [OF quiet_socket(1)] quiet_readyInv [OF quiet_socket(2)]
      quiet_readyInv [OF quiet_socket(3)] quiet_readyInv [OF quiet_socket(4)]
      quiet_readyInv [OF quiet_socket(5)] quiet_readyInv [OF quiet_socket(6)]
      quiet_readyInv [OF quiet_socket(7)] quiet_readyInv [OF quiet_socket(8)]
      quiet_readyInv [OF quiet_socket(9)] quiet_readyInv [OF quiet_socket(10)]
      quiet_readyInv [OF quiet_connect_authorized])

lemma run_readyInv: "readyInv s \<Longrightarrow> readyInv (run enc mul es s)"
  by (induction es arbitrary: s) (simp_all add: step_readyInv)

lemma init_readyInv: "readyInv (init sid delay)"
  by (simp add: readyInv_def init_def)


section \<open>The amplitude detector\<close>

lemma quietD: "quiet s s' \<Longrightarrow> amplitudeVADs s' = amplitudeVADs s"
  by (simp add: quiet_def)

text \<open>No event but its own amplitudes touches a registered closure.\<close>

lemma step_detector:
  assumes "k < length (amplitudeVADs s)" and "\<forall>a. e \<noteq> Amplitude k a"
  shows "k < length (amplitudeVADs (step enc mul e s)) \<and>
         amplitudeVADs (step enc mul e s) ! k = amplitudeVADs s ! k"
  using assms
proof (induction enc mul e s rule: step.induct)
  case (1 enc mul chunk s)
  then show ?case by (simp add: quiet_data)
next
  case (2 enc mul played parsed s)
  then show ?case by (simp add: quietD [OF quiet_handleWebSocketMessage])
next
  case (4 enc mul s)
  then show ?case by (simp add: onopen_def quiet_ready)
next
  case (15 enc mul i s)
  then show ?case
    by (simp add: vadTimeoutCallback_def setupAmplitudeBasedVAD_def Let_def nth_append)
next
  case (16 enc mul j a s)
  then have "j \<noteq> k" by simp
  with 16 show ?case by (simp add: amplitudeCallback_def Let_def)
next
  case (24 enc mul s)
  then show ?case by (simp add: connect_finish_def quiet_ready)
next
  case (27 enc mul od s)
  then show ?case
    by (simp add: quietD [OF quiet_trans [OF quiet_interrupt(3) quiet_interrupt(2)]])
qed (simp_all add: quietD [OF quiet_vad(1)] quietD [OF quiet_vad(2)]
      quietD [OF quiet_vad(3)] quietD [OF quiet_vad(4)]
      quietD [OF quiet_vad(5)] quietD [OF quiet_vad(6)]
      quietD [OF quiet_vad(7)] quietD [OF quiet_vad(8)]
      quietD [OF quiet_socket(1)] quietD [OF quiet_socket(2)]
      quietD [OF quiet_socket(3)] quietD [OF quiet_socket(4)]
      quietD [OF quiet_socket(5)] quietD [OF quiet_socket(6)]
      quietD [OF quiet_socket(7)] quietD [OF quiet_socket(8)]
      quietD [OF quiet_socket(9)] quietD [OF quiet_socket(10)]
      quietD [OF quiet_connect_authorized])

lemma run_snoc: "run enc mul (es @ [e]) s = step enc mul e (run enc mul es s)"
  by (induction es arbitrary: s) simp_all

lemma run_append: "run enc mul (xs @ ys) s = run enc mul ys (run enc mul xs s)"
  by (induction xs arbitrary: s) simp_all

lemma amplitudes_snoc:
  "amplitudes k (es @ [e]) =
     amplitudes k es @ (case e of Amplitude j a \<Rightarrow> if j = k then [a] else [] | _ \<Rightarrow> [])"
  by (induction k es rule: amplitudes.induct) (simp_all split: event.split)

lemma trailingSilence_snoc:
  "trailingSilence (frames @ [a]) =
     (if a > AMPLITUDE_THRESHOLD then 0 else Suc (trailingSilence frames))"
  by (simp add: trailingSilence_def)

text \<open>The closure's counter, while it is speaking, is the number of amplitudes in a row
  that did not exceed the threshold, and is below 30.\<close>

lemma run_closure:
  assumes "k < length (amplitudeVADs s)"
    and "amplitudeVADs s ! k = \<lparr>isSpeakingByAmplitude = False, silenceFrames = 0\<rparr>"
  shows "k < length (amplitudeVADs (run enc mul es s)) \<and>
         (isSpeakingByAmplitude (amplitudeVADs (run enc mul es s) ! k) \<longrightarrow>
            silenceFrames (amplitudeVADs (run enc mul es s) ! k) = trailingSilence (amplitudes k es)
            \<and> silenceFrames (amplitudeVADs (run enc mul es s) ! k) < 30)"
proof (induction es rule: rev_induct)
  case Nil
  show ?case using assms by simp
next
  case (snoc e es)
  define t where "t = run enc mul es s"
  from snoc have len: "k < length (amplitudeVADs t)"
    and sp: "isSpeakingByAmplitude (amplitudeVADs t ! k) \<longrightarrow>
               silenceFrames (amplitudeVADs t ! k) = trailingSilence (amplitudes k es)
               \<and> silenceFrames (amplitudeVADs t ! k) < 30"
    unfolding t_def by blast+
  show ?case
  proof (cases "\<exists>a. e = Amplitude k a")
    case True
    then obtain a where e: "e = Amplitude k a" by blast
    show ?thesis
      using len sp
      by (auto simp: e run_snoc t_def [symmetric] amplitudes_snoc trailingSilence_snoc
            amplitudeCallback_def Let_def SILENCE_FRAMES_THRESHOLD_def)
  next
    case False
    then have na: "\<forall>a. e \<noteq> Amplitude k a" by blast
    have same: "k < length (amplitudeVADs (step enc mul e t)) \<and>
        amplitudeVADs (step enc mul e t) ! k = amplitudeVADs t ! k"
      using len na by (rule step_detector)
    have "amplitudes k (es @ [e]) = amplitudes k es"
      using na by (cases e) (simp_all add: amplitudes_snoc)
    with same sp show ?thesis by (auto simp: run_snoc t_def [symmetric])
  qed
qed

lemma vadTimeoutCallback_eq:
  "vadTimeoutCallback s =
     s\<lparr>userIsSpeaking := False,
       trace := trace s @
         [Console Log [AText ''silero vad model timeout''],
          Console Warn [AText ''VAD model failed to load - falling back to amplitude-based detection''],
          Console Log [AText ''sent ws msg:'', AMsg (VadEvents vad_model_failed)]] @
         (if wsOpen s then [WsSend (VadEvents vad_model_failed)] else []) @
         [OnUserIsSpeakingChange False, RecorderStartAmplitudeMonitoring],
       amplitudeVADs :=
         amplitudeVADs s @ [\<lparr>isSpeakingByAmplitude = False, silenceFrames = 0\<rparr>]\<rparr>"
  by (simp add: vadTimeoutCallback_def setupAmplitudeBasedVAD_def wsSend_eq emit_def wsOpen_def Let_def)

lemma amplitudeCallback_cases:
  assumes "k < length (amplitudeVADs t)"
    and "isSpeakingByAmplitude (amplitudeVADs t ! k) \<longrightarrow>
           silenceFrames (amplitudeVADs t ! k) = trailingSilence frames
           \<and> silenceFrames (amplitudeVADs t ! k) < 30"
  shows "amplitudeCallback k a t =
     (if a > AMPLITUDE_THRESHOLD \<and> \<not> isSpeakingByAmplitude (amplitudeVADs t ! k) then
        wsSend (VadEvents vad_start)
          (emit (OnUserIsSpeakingChange True)
             (t\<lparr>amplitudeVADs :=
                  (amplitudeVADs t)[k := \<lparr>isSpeakingByAmplitude = True, silenceFrames = 0\<rparr>],
                userIsSpeaking := True\<rparr>))
      else if \<not> a > AMPLITUDE_THRESHOLD \<and> isSpeakingByAmplitude (amplitudeVADs t ! k)
              \<and> trailingSilence (frames @ [a]) = 30 then
        wsSend (VadEvents vad_end)
          (emit (OnUserIsSpeakingChange False)
             (t\<lparr>amplitudeVADs :=
                  (amplitudeVADs t)[k := \<lparr>isSpeakingByAmplitude = False, silenceFrames = 30\<rparr>],
                userIsSpeaking := False\<rparr>))
      else
        t\<lparr>amplitudeVADs :=
            (amplitudeVADs t)[k := (amplitudeVADs t ! k)\<lparr>silenceFrames :=
               (if a > AMPLITUDE_THRESHOLD then 0 else silenceFrames (amplitudeVADs t ! k) + 1)\<rparr>]\<rparr>)"
  using assms
  by (cases "amplitudeVADs t ! k")
     (auto simp: amplitudeCallback_def Let_def trailingSilence_snoc SILENCE_FRAMES_THRESHOLD_def)

lemma quiet_frames_keep_speaking:
  "k < length (amplitudeVADs t) \<Longrightarrow>
   amplitudeVADs t ! k = \<lparr>isSpeakingByAmplitude = True, silenceFrames = c\<rparr> \<Longrightarrow> c + n < 30 \<Longrightarrow>
     run enc mul (map (Amplitude k) (replicate n 0)) t =
       t\<lparr>amplitudeVADs :=
           (amplitudeVADs t)[k := \<lparr>isSpeakingByAmplitude = True, silenceFrames = c + n\<rparr>]\<rparr>"
proof (induction n arbitrary: t c)
  case 0
  then show ?case by (simp add: list_update_same_conv [THEN iffD2])
next
  case (Suc n)
  have first: "amplitudeCallback k 0 t =
      t\<lparr>amplitudeVADs :=
          (amplitudeVADs t)[k := \<lparr>isSpeakingByAmplitude = True, silenceFrames = Suc c\<rparr>]\<rparr>"
    using Suc.prems
    by (simp add: amplitudeCallback_def Let_def AMPLITUDE_THRESHOLD_def SILENCE_FRAMES_THRESHOLD_def)
  have "run enc mul (map (Amplitude k) (replicate n 0)) (amplitudeCallback k 0 t) =
      (amplitudeCallback k 0 t)\<lparr>amplitudeVADs :=
         (amplitudeVADs (amplitudeCallback k 0 t))
           [k := \<lparr>isSpeakingByAmplitude = True, silenceFrames = Suc c + n\<rparr>]\<rparr>"
    using Suc.prems by (intro Suc.IH) (simp_all add: first)
  then show ?case by (simp add: first)
qed

text \<open>The 30th quiet amplitude in a row ends the speech: after the timeout, one loud
  amplitude and 29 quiet ones the user still counts as speaking; the 30th quiet
  amplitude sends \<^verbatim>\<open>vad_end\<close>.\<close>

lemma speech_end_on_30th_quiet_frame:
  "userIsSpeaking (run (\<lambda>c. ''AAAA'') (\<lambda>x y. x * y)
      ([VadTimeout 0, Amplitude 0 0.5] @ map (Amplitude 0) (replicate 29 0))
      ((init (Val JNull) 500)\<lparr>ws := Some OPEN, vadInits := 1, vadTimeouts := {0}\<rparr>)) \<and>
   trace (run (\<lambda>c. ''AAAA'') (\<lambda>x y. x * y)
      ([VadTimeout 0, Amplitude 0 0.5] @ map (Amplitude 0) (replicate 29 0) @ [Amplitude 0 0])
      ((init (Val JNull) 500)\<lparr>ws := Some OPEN, vadInits := 1, vadTimeouts := {0}\<rparr>)) =
     trace (run (\<lambda>c. ''AAAA'') (\<lambda>x y. x * y) [VadTimeout 0, Amplitude 0 0.5]
      ((init (Val JNull) 500)\<lparr>ws := Some OPEN, vadInits := 1, vadTimeouts := {0}\<rparr>)) @
     [OnUserIsSpeakingChange False,
      Console Log [AText ''sent ws msg:'', AMsg (VadEvents vad_end)],
      WsSend (VadEvents vad_end)]"
proof -
  define enc :: "pcm \<Rightarrow> string" where "enc = (\<lambda>c. ''AAAA'')"
  define mul :: "real \<Rightarrow> real \<Rightarrow> real" where "mul = (\<lambda>x y. x * y)"
  define s1 where
    "s1 = (init (Val JNull) 500)\<lparr>ws := Some OPEN, vadInits := 1, vadTimeouts := {0}\<rparr>"
  define q where "q = map (Amplitude 0) (replicate 29 0)"
  define t0 where "t0 = run enc mul [VadTimeout 0, Amplitude 0 0.5] s1"
  define t29 where "t29 = run enc mul q t0"
  have len0: "0 < length (amplitudeVADs t0)"
    and v0: "amplitudeVADs t0 ! 0 = \<lparr>isSpeakingByAmplitude = True, silenceFrames = 0\<rparr>"
    and vs: "amplitudeVADs t0 = [\<lparr>isSpeakingByAmplitude = True, silenceFrames = 0\<rparr>]"
    and sp: "userIsSpeaking t0" and op: "wsOpen t0"
    by (simp_all add: t0_def s1_def init_def vadTimeoutCallback_eq amplitudeCallback_def Let_def
          AMPLITUDE_THRESHOLD_def wsOpen_def wsSend_eq emit_def)
  have t29: "t29 = t0\<lparr>amplitudeVADs := [\<lparr>isSpeakingByAmplitude = True, silenceFrames = 29\<rparr>]\<rparr>"
    unfolding t29_def q_def
    using quiet_frames_keep_speaking [OF len0 v0, of 29 enc mul] by (simp add: vs)
  have before: "run enc mul ([VadTimeout 0, Amplitude 0 0.5] @ q) s1 = t29"
    by (simp only: run_append t0_def t29_def)
  have after: "run enc mul ([VadTimeout 0, Amplitude 0 0.5] @ q @ [Amplitude 0 0]) s1 =
      amplitudeCallback 0 0 t29"
    by (simp only: run_append t0_def t29_def run.simps step.simps)
  have ended: "trace (amplitudeCallback 0 0 t29) =
      trace t0 @ [OnUserIsSpeakingChange False,
        Console Log [AText ''sent ws msg:'', AMsg (VadEvents vad_end)],
        WsSend (VadEvents vad_end)]"
    using op by (simp add: t29 amplitudeCallback_def Let_def AMPLITUDE_THRESHOLD_def
          SILENCE_FRAMES_THRESHOLD_def wsOpen_def wsSend_eq emit_def)
  have "userIsSpeaking t29" using sp by (simp add: t29)
  with ended show ?thesis
    unfolding before after s1_def [symmetric] q_def [symmetric] t0_def [symmetric]
      enc_def [symmetric] mul_def [symmetric]
    by simp
qed

text \<open>Two calls of \<^verbatim>\<open>_initializeVAD\<close> (connect, disconnect, connect) arm two timers;
  the ready callback of the second engine clears the second timer only, and the first
  still fires and registers a detector. A second timer that fires registers a second
  detector next to the first, and both go on receiving amplitudes.\<close>

lemma ready_clears_its_own_timer:
  "vadTimeouts (run (\<lambda>c. ''AAAA'') (\<lambda>x y. x * y)
      [ConnectAuthorized (AuthOk (Val (JStr ''s1'')) ''automatic'' True), Disconnect,
       ConnectAuthorized (AuthOk (Val (JStr ''s1'')) ''automatic'' True), VadReady 1]
      (init (Val JNull) 500)) = {0} \<and>
   amplitudeVADs (run (\<lambda>c. ''AAAA'') (\<lambda>x y. x * y)
      [ConnectAuthorized (AuthOk (Val (JStr ''s1'')) ''automatic'' True), Disconnect,
       ConnectAuthorized (AuthOk (Val (JStr ''s1'')) ''automatic'' True), VadReady 1,
       VadTimeout 0]
      (init (Val JNull) 500)) = [\<lparr>isSpeakingByAmplitude = False, silenceFrames = 0\<rparr>] \<and>
   amplitudeVADs (run (\<lambda>c. ''AAAA'') (\<lambda>x y. x * y)
      [ConnectAuthorized (AuthOk (Val (JStr ''s1'')) ''automatic'' True), Disconnect,
       ConnectAuthorized (AuthOk (Val (JStr ''s1'')) ''automatic'' True),
       VadTimeout 0, Amplitude 0 0.5, VadTimeout 1, Amplitude 1 0, Amplitude 0 0]
      (init (Val JNull) 500)) =
     [\<lparr>isSpeakingByAmplitude = True, silenceFrames = 1\<rparr>,
      \<lparr>isSpeakingByAmplitude = False, silenceFrames = 1\<rparr>]"
  by (simp add: init_def connect_authorized_def disconnect_def wsClose_def resetTurnTracking_def
        initializeVAD_def vadReady_def vadTimeoutCallback_eq amplitudeCallback_def
        AMPLITUDE_THRESHOLD_def SILENCE_FRAMES_THRESHOLD_def setStatus_def
        wsSend_eq emit_def wsOpen_def Let_def)

section \<open>The claims\<close>

text \<open>
  C1: what the repository's code does with the two frames of its own tests,
  \<^verbatim>\<open>{}\<close> and \<^verbatim>\<open>{type: 'speech_send_tracking', ...}\<close>. Both revisions take the
  \<^verbatim>\<open>default\<close> arm, which calls \<^verbatim>\<open>console.error('Unknown message type received:', message)\<close>:
  one report at error severity, none at debug severity. The frame \<^verbatim>\<open>null\<close> parses as
  JSON as well; reading its \<^verbatim>\<open>type\<close> throws, and the \<^verbatim>\<open>catch\<close> arm calls
  \<^verbatim>\<open>onError\<close>.
\<close>

theorem unhandled_message_logged_as_error:
  "trace (handleWebSocketMessage (Inl Rejected)
            (Some (JObj [])) (init (Val JNull) 500)) =
     [Console Log [AText ''received ws msg:'', AVal (Val (JObj []))],
      Console Error [AText ''Unknown message type received:'', AVal (Val (JObj []))]] \<and>
   trace (handleWebSocketMessage (Inl Rejected)
            (Some (JObj [(''type'', JStr ''speech_send_tracking''), (''timestamp'', JNum 123456),
                         (''text'', JStr ''hi'')])) (init (Val JNull) 500)) =
     [Console Log [AText ''received ws msg:'',
        AVal (Val (JObj [(''type'', JStr ''speech_send_tracking''), (''timestamp'', JNum 123456),
                         (''text'', JStr ''hi'')]))],
      Console Error [AText ''Unknown message type received:'',
        AVal (Val (JObj [(''type'', JStr ''speech_send_tracking''), (''timestamp'', JNum 123456),
                         (''text'', JStr ''hi'')]))]] \<and>
   trace (handleWebSocketMessage_idx (Inl Rejected)
            (Some (JObj [])) init_idx) =
     [Console Log [AText ''received ws msg:'', AVal (Val (JObj []))],
      Console Error [AText ''Unknown message type received:'', AVal (Val (JObj []))]] \<and>
   trace (handleWebSocketMessage (Inl Rejected)
            (Some JNull) (init (Val JNull) 500)) =
     [Console Error [AText ''Error processing WebSocket message:'', AExn TypeError],
      OnError TypeError]"
  by (simp add: init_def init_idx_def handleWebSocketMessage_def dispatch_def
        handleWebSocketMessage_idx_def dispatch_idx_def logReceived_def defaultArm_def
        catchMessage_def emit_def Let_def)

text \<open>
  C2. For every chunk the decision is
  \<^verbatim>\<open>pushToTalkEnabled ? pushToTalkActive : userIsSpeaking\<close>. When it is true, the
  buffered chunks, oldest first, and then the current chunk are handed to \<^verbatim>\<open>_wsSend\<close>
  one audio message each; on an open socket they are the frames the handler puts on the
  wire, in that order (on a socket that is not open \<^verbatim>\<open>_wsSend\<close> drops them); the
  buffer is left empty. When it is false nothing is sent and the chunk is appended to
  the buffer, whose oldest entry is removed if that makes more than 10 entries.
\<close>

theorem handleDataAvailable_gate:
  "sendAudio s = (if pushToTalkEnabled s then pushToTalkActive s else userIsSpeaking s) \<and>
   (sendAudio s \<longrightarrow>
      handleDataAvailable enc chunk s =
        (wsSend (ClientAudio (enc chunk))
           (sendBuffered (audioBuffer s)
              (if audioBuffer s = [] then s
               else emit (Console Log [AText ''Sending buffered audio chunks'',
                            ANat (length (audioBuffer s))]) s)))\<lparr>audioBuffer := []\<rparr>
      \<and> (wsOpen s \<longrightarrow>
            audioSent (trace (handleDataAvailable enc chunk s)) =
              audioSent (trace s) @ audioBuffer s @ [enc chunk])) \<and>
   (\<not> sendAudio s \<longrightarrow>
      handleDataAvailable enc chunk s =
        s\<lparr>audioBuffer := (if length (audioBuffer s) < 10 then audioBuffer s @ [enc chunk]
                           else tl (audioBuffer s @ [enc chunk]))\<rparr>)"
proof (intro conjI impI)
  show "sendAudio s = (if pushToTalkEnabled s then pushToTalkActive s else userIsSpeaking s)"
    by (simp add: sendAudio_def)
next
  assume "\<not> sendAudio s"
  then show "handleDataAvailable enc chunk s =
       s\<lparr>audioBuffer := (if length (audioBuffer s) < 10 then audioBuffer s @ [enc chunk]
                          else tl (audioBuffer s @ [enc chunk]))\<rparr>"
    by (rule handleDataAvailable_buffer)
next
  assume "sendAudio s"
  then show "handleDataAvailable enc chunk s =
       (wsSend (ClientAudio (enc chunk))
          (sendBuffered (audioBuffer s)
             (if audioBuffer s = [] then s
              else emit (Console Log [AText ''Sending buffered audio chunks'',
                           ANat (length (audioBuffer s))]) s)))\<lparr>audioBuffer := []\<rparr>"
    by (simp add: handleDataAvailable_send sendBuffered_eq wsSend_eq wsOpen_def emit_def)
next
  assume "sendAudio s" and "wsOpen s"
  then show "audioSent (trace (handleDataAvailable enc chunk s)) =
       audioSent (trace s) @ audioBuffer s @ [enc chunk]"
    by (simp add: handleDataAvailable_send)
qed

text \<open>A speaking user, an open socket and two buffered chunks; and a full buffer while
  nobody speaks.\<close>

theorem handleDataAvailable_gate_witness:
  "sendAudio ((init (Val JNull) 500)\<lparr>ws := Some OPEN, userIsSpeaking := True,
                                      audioBuffer := [''b1'', ''b2'']\<rparr>) \<and>
   trace (handleDataAvailable (\<lambda>c. ''b3'') [1, 2]
            ((init (Val JNull) 500)\<lparr>ws := Some OPEN, userIsSpeaking := True,
                                      audioBuffer := [''b1'', ''b2'']\<rparr>)) =
     [Console Log [AText ''Sending buffered audio chunks'', ANat 2],
      WsSend (ClientAudio ''b1''), WsSend (ClientAudio ''b2''), WsSend (ClientAudio ''b3'')] \<and>
   \<not> sendAudio ((init (Val JNull) 500)\<lparr>audioBuffer :=
        [''c0'', ''c1'', ''c2'', ''c3'', ''c4'', ''c5'', ''c6'', ''c7'', ''c8'', ''c9'']\<rparr>) \<and>
   audioBuffer (handleDataAvailable (\<lambda>c. ''c10'') [1, 2]
      ((init (Val JNull) 500)\<lparr>audioBuffer :=
        [''c0'', ''c1'', ''c2'', ''c3'', ''c4'', ''c5'', ''c6'', ''c7'', ''c8'', ''c9'']\<rparr>)) =
     [''c1'', ''c2'', ''c3'', ''c4'', ''c5'', ''c6'', ''c7'', ''c8'', ''c9'', ''c10'']"
  using handleDataAvailable_gate
          [of "(init (Val JNull) 500)\<lparr>ws := Some OPEN, userIsSpeaking := True,
                                       audioBuffer := [''b1'', ''b2'']\<rparr>"
              "\<lambda>c. ''b3''" "[1, 2]"]
        handleDataAvailable_gate
          [of "(init (Val JNull) 500)\<lparr>audioBuffer :=
                 [''c0'', ''c1'', ''c2'', ''c3'', ''c4'', ''c5'', ''c6'', ''c7'', ''c8'', ''c9'']\<rparr>"
              "\<lambda>c. ''c10''" "[1, 2]"]
  by (simp add: init_def sendAudio_def sendBuffered_eq wsSend_eq wsOpen_def emit_def)

text \<open>
  C3. In every state a run reaches from the constructor's state the buffer holds at
  most 10 entries; a capture step whose decision is true leaves the buffer empty, and
  on an open socket puts the buffered chunks, oldest first, and then the current chunk
  on the wire; and over a whole run the audio frames on the wire are, in order, among
  the chunks captured (a subsequence: evicted and dropped chunks are missing, none is
  out of order or repeated).
\<close>

theorem audioBuffer_bounded_flushed_ordered:
  "length (audioBuffer (run enc mul es (init sid delay))) \<le> 10 \<and>
   (sendAudio s \<longrightarrow> audioBuffer (handleDataAvailable enc chunk s) = []) \<and>
   (sendAudio s \<and> wsOpen s \<longrightarrow>
      audioSent (trace (handleDataAvailable enc chunk s)) =
        audioSent (trace s) @ audioBuffer s @ [enc chunk]) \<and>
   subseq (audioSent (trace (run enc mul es (init sid delay)))) (map enc (captured es))"
proof -
  have inv: "bufferInv enc ([] @ captured es) (run enc mul es (init sid delay))"
    using init_bufferInv by (rule run_bufferInv)
  then have len: "length (audioBuffer (run enc mul es (init sid delay))) \<le> 10"
    by (simp add: bufferInv_def)
  from inv have "subseq (audioSent (trace (run enc mul es (init sid delay)))
                          @ audioBuffer (run enc mul es (init sid delay))) (map enc (captured es))"
    by (simp add: bufferInv_def)
  moreover have "subseq (audioSent (trace (run enc mul es (init sid delay))))
      (audioSent (trace (run enc mul es (init sid delay))) @ audioBuffer (run enc mul es (init sid delay)))"
    by (rule prefix_imp_subseq) simp
  ultimately have ord: "subseq (audioSent (trace (run enc mul es (init sid delay)))) (map enc (captured es))"
    using subseq_order.trans by blast
  show ?thesis
    using len ord by (simp add: handleDataAvailable_send)
qed

text \<open>Two chunks captured before the socket opens and speech starts, one after.\<close>

theorem audioBuffer_bounded_flushed_ordered_witness:
  "audioSent (trace (run (\<lambda>c. replicate (length c) CHR ''A'') (\<lambda>x y. x * y)
      [ConnectAuthorized (AuthOk (Val JNull) ''automatic'' True), SocketState OPEN,
       DataAvailable [7], DataAvailable [7, 7], SpeechStart Interruptible,
       DataAvailable [7, 7, 7]]
      (init (Val JNull) 500))) = [''A'', ''AA'', ''AAA''] \<and>
   subseq [''A'', ''AA'', ''AAA'']
     (map (\<lambda>c. replicate (length c) CHR ''A'')
        (captured [ConnectAuthorized (AuthOk (Val JNull) ''automatic'' True), SocketState OPEN,
           DataAvailable [7], DataAvailable [7, 7], SpeechStart Interruptible,
           DataAvailable [7, 7, 7]])) \<and>
   sendAudio ((init (Val JNull) 500)\<lparr>ws := Some OPEN, userIsSpeaking := True,
                                      audioBuffer := [''A'']\<rparr>) \<and>
   wsOpen ((init (Val JNull) 500)\<lparr>ws := Some OPEN, userIsSpeaking := True,
                                   audioBuffer := [''A'']\<rparr>) \<and>
   audioBuffer (handleDataAvailable (\<lambda>c. replicate (length c) CHR ''A'') [7, 7]
      ((init (Val JNull) 500)\<lparr>ws := Some OPEN, userIsSpeaking := True,
                                audioBuffer := [''A'']\<rparr>)) = []"
  using audioBuffer_bounded_flushed_ordered
          [of "\<lambda>c. replicate (length c) CHR ''A''" "\<lambda>x y. x * y"
              "[ConnectAuthorized (AuthOk (Val JNull) ''automatic'' True), SocketState OPEN,
                DataAvailable [7], DataAvailable [7, 7], SpeechStart Interruptible,
                DataAvailable [7, 7, 7]]"
              "Val JNull" 500
              "(init (Val JNull) 500)\<lparr>ws := Some OPEN, userIsSpeaking := True,
                                        audioBuffer := [''A'']\<rparr>"
              "[7, 7]"]
  by (simp add: init_def sendAudio_def wsOpen_def handleDataAvailable_def connect_authorized_def
        initializeVAD_def onSpeechStart_def sendBuffered_eq wsSend_eq emit_def Let_def)

text \<open>
  C4 as stated fails on part_003: its \<^verbatim>\<open>turn.start\<close> arm does not read
  \<^verbatim>\<open>canInterrupt\<close>. On the constructor's state (\<^verbatim>\<open>canInterrupt\<close> false, push-to-talk
  off) a \<^verbatim>\<open>turn.start\<close> of role user runs the interruption routine.
\<close>

theorem turn_start_canInterrupt_counterexample:
  "\<not> (PlayerInterrupt \<in> set (trace (handleWebSocketMessage
            (Inl Rejected)
            (Some (JObj [(''type'', JStr ''turn.start''), (''role'', JStr ''user'')]))
            (init (Val JNull) 500)))
        \<longleftrightarrow>
        (getProp (JObj [(''type'', JStr ''turn.start''), (''role'', JStr ''user'')]) ''role''
           = Inr (Val (JStr ''user''))
         \<and> \<not> pushToTalkEnabled (init (Val JNull) 500)
         \<and> canInterrupt (init (Val JNull) 500)))"
  by (simp add: init_def handleWebSocketMessage_def dispatch_def logReceived_def
        turnStartArm_def clientInterruptAssistantReplay_def emit_def Let_def)

text \<open>
  C4, amended. For a \<^verbatim>\<open>turn.start\<close> frame: with role assistant both revisions only
  print to the console at log severity (no field changes, no interruption). part_003 runs
  the interruption routine once if and only if the role is user and push-to-talk is not
  enabled; \<^verbatim>\<open>canInterrupt\<close> is not read. src/index.ts runs it once if and only if the
  role is user, push-to-talk is not enabled and \<^verbatim>\<open>canInterrupt\<close> is true.
\<close>

theorem turn_start_interruption:
  assumes "getProp message ''type'' = Inr (Val (JStr ''turn.start''))"
  shows
  "(getProp message ''role'' = Inr (Val (JStr ''assistant'')) \<longrightarrow>
      handleWebSocketMessage played (Some message) s =
        s\<lparr>trace := trace s @
          [Console Log [AText ''received ws msg:'', AVal (Val message)],
           Console Log [AText ''received turn.start from server''],
           Console Log [AVal (Val message)],
           Console Log [AText ''Assistant turn started, will track new turn ID from audio/text'']]\<rparr> \<and>
      handleWebSocketMessage_idx played (Some message) t =
        t\<lparr>trace := trace t @
          [Console Log [AText ''received ws msg:'', AVal (Val message)],
           Console Log [AText ''received turn.start from server''],
           Console Log [AVal (Val message)]]\<rparr>) \<and>
   count_list (trace (handleWebSocketMessage played (Some message) s)) PlayerInterrupt =
     count_list (trace s) PlayerInterrupt +
       (if getProp message ''role'' = Inr (Val (JStr ''user'')) \<and> \<not> pushToTalkEnabled s
        then 1 else 0) \<and>
   count_list (trace (handleWebSocketMessage_idx played (Some message) t)) PlayerInterrupt =
     count_list (trace t) PlayerInterrupt +
       (if getProp message ''role'' = Inr (Val (JStr ''user'')) \<and> \<not> pushToTalkEnabled t
           \<and> canInterrupt t
        then 1 else 0)"
  using assms
  by (simp add: handleWebSocketMessage_def dispatch_def handleWebSocketMessage_idx_def
        dispatch_idx_def logReceived_def turnStartArm_def turnStartArm_idx_def
        clientInterruptAssistantReplay_def clientInterruptAssistantReplay_idx_def
        emit_def Let_def)

theorem turn_start_interruption_witness:
  "getProp (JObj [(''type'', JStr ''turn.start''), (''role'', JStr ''user'')]) ''type''
     = Inr (Val (JStr ''turn.start'')) \<and>
   count_list (trace (handleWebSocketMessage (Inl Rejected)
      (Some (JObj [(''type'', JStr ''turn.start''), (''role'', JStr ''user'')]))
      (init (Val JNull) 500))) PlayerInterrupt = 1 \<and>
   count_list (trace (handleWebSocketMessage_idx (Inl Rejected)
      (Some (JObj [(''type'', JStr ''turn.start''), (''role'', JStr ''user'')]))
      init_idx)) PlayerInterrupt = 0 \<and>
   count_list (trace (handleWebSocketMessage_idx (Inl Rejected)
      (Some (JObj [(''type'', JStr ''turn.start''), (''role'', JStr ''user'')]))
      (init_idx\<lparr>canInterrupt := True\<rparr>))) PlayerInterrupt = 1"
  using turn_start_interruption
          [of "JObj [(''type'', JStr ''turn.start''), (''role'', JStr ''user'')]"
              "Inl Rejected"
              "init (Val JNull) 500" init_idx]
        turn_start_interruption
          [of "JObj [(''type'', JStr ''turn.start''), (''role'', JStr ''user'')]"
              "Inl Rejected"
              "init (Val JNull) 500" "init_idx\<lparr>canInterrupt := True\<rparr>"]
  by (simp add: init_def init_idx_def)

text \<open>
  C5. The routine calls \<^verbatim>\<open>wavPlayer.interrupt()\<close> and is suspended at its
  \<^verbatim>\<open>await\<close>: the call itself sends nothing and changes no field of the client
  (\<open>pendingInterrupts\<close> counts the suspended routines). When the player's promise
  resolves, the routine reads the answer, and \<^verbatim>\<open>currentTurnId\<close> and the socket as they
  are at that moment; both are read by truthiness (the empty string counts as no turn
  id, as \<^verbatim>\<open>hasTurnId\<close> reports it). With both, one
  \<^verbatim>\<open>trigger.response.audio.interrupted\<close> message goes to \<^verbatim>\<open>_wsSend\<close>:
  \<^verbatim>\<open>playback_offset\<close> is the product of doubles \<^verbatim>\<open>currentTime * 1000\<close>, the context
  holds the turn id and the same number; an open socket puts it on the wire once. With
  either missing nothing is sent: one \<^verbatim>\<open>console.warn\<close> names which of the two there
  is. In no case is a field changed, \<^verbatim>\<open>onError\<close> called or anything logged at error
  severity.
\<close>

theorem interruption_message:
  "clientInterruptAssistantReplay s =
     s\<lparr>trace := trace s @ [PlayerInterrupt], pendingInterrupts := pendingInterrupts s + 1\<rparr> \<and>
   (0 < pendingInterrupts s \<longrightarrow>
      step enc mul (InterruptResolved reply) s =
        interruptResume mul reply (s\<lparr>pendingInterrupts := pendingInterrupts s - 1\<rparr>)) \<and>
   (truthy (currentTurnId s) \<longrightarrow>
      interruptResume mul (Some od) s =
        wsSend (AudioInterrupted (mul (currentTime od) 1000) (currentTurnId s)
                  (mul (currentTime od) 1000)) s \<and>
      trace (interruptResume mul (Some od) s) =
        trace s @
          [Console Log [AText ''sent ws msg:'',
             AMsg (AudioInterrupted (mul (currentTime od) 1000) (currentTurnId s)
                     (mul (currentTime od) 1000))]] @
          (if wsOpen s
           then [WsSend (AudioInterrupted (mul (currentTime od) 1000) (currentTurnId s)
                           (mul (currentTime od) 1000))]
           else [])) \<and>
   (reply = None \<or> \<not> truthy (currentTurnId s) \<longrightarrow>
      interruptResume mul reply s =
        s\<lparr>trace := trace s @
             [Console Warn [AText ''Interruption requested but missing required data:'',
                AFlags [(''hasOffsetData'', reply \<noteq> None),
                        (''hasTurnId'', truthy (currentTurnId s))]]]\<rparr>)"
  by (cases reply)
     (simp_all add: clientInterruptAssistantReplay_def interruptResume_def Let_def emit_def
        wsSend_eq wsOpen_def)

text \<open>On an open socket: a routine that resumes with an answer and a turn id; one that
  resumes with an answer and no turn id; one that resumes with no answer; and two runs
  from a client with no turn id in which a \<^verbatim>\<open>turn.start\<close> of role user starts the
  routine. In the first run a \<^verbatim>\<open>response.text\<close> frame sets the turn id while the
  routine is suspended, and the message carries that turn id; in the second the routine
  resumes with the turn id still missing, and warns.\<close>

theorem interruption_message_witness:
  "0 < pendingInterrupts ((init (Val JNull) 500)\<lparr>ws := Some OPEN,
         currentTurnId := Val (JStr ''t1''), pendingInterrupts := 1\<rparr>) \<and>
   truthy (currentTurnId ((init (Val JNull) 500)\<lparr>ws := Some OPEN,
         currentTurnId := Val (JStr ''t1''), pendingInterrupts := 1\<rparr>)) \<and>
   trace (step (\<lambda>c. ''AAAA'') (\<lambda>x y. x * y)
            (InterruptResolved
               (Some \<lparr>trackId = Val (JStr ''t1''), offset = 8000, currentTime = 0.5\<rparr>))
            ((init (Val JNull) 500)\<lparr>ws := Some OPEN,
               currentTurnId := Val (JStr ''t1''), pendingInterrupts := 1\<rparr>)) =
     [Console Log [AText ''sent ws msg:'', AMsg (AudioInterrupted 500 (Val (JStr ''t1'')) 500)],
      WsSend (AudioInterrupted 500 (Val (JStr ''t1'')) 500)] \<and>
   \<not> truthy (currentTurnId ((init (Val JNull) 500)\<lparr>ws := Some OPEN, pendingInterrupts := 1\<rparr>)) \<and>
   trace (step (\<lambda>c. ''AAAA'') (\<lambda>x y. x * y)
            (InterruptResolved
               (Some \<lparr>trackId = Val (JStr ''t1''), offset = 8000, currentTime = 0.5\<rparr>))
            ((init (Val JNull) 500)\<lparr>ws := Some OPEN, pendingInterrupts := 1\<rparr>)) =
     [Console Warn [AText ''Interruption requested but missing required data:'',
        AFlags [(''hasOffsetData'', True), (''hasTurnId'', False)]]] \<and>
   trace (step (\<lambda>c. ''AAAA'') (\<lambda>x y. x * y) (InterruptResolved None)
            ((init (Val JNull) 500)\<lparr>ws := Some OPEN,
               currentTurnId := Val (JStr ''t1''), pendingInterrupts := 1\<rparr>)) =
     [Console Warn [AText ''Interruption requested but missing required data:'',
        AFlags [(''hasOffsetData'', False), (''hasTurnId'', True)]]] \<and>
   last (trace (run (\<lambda>c. ''AAAA'') (\<lambda>x y. x * y)
      [Message (Inl Rejected) (Some (JObj [(''type'', JStr ''turn.start''), (''role'', JStr ''user'')])),
       Message (Inl Rejected) (Some (JObj [(''type'', JStr ''response.text''), (''turn_id'', JStr ''t1'')])),
       InterruptResolved
         (Some \<lparr>trackId = Val (JStr ''t1''), offset = 8000, currentTime = 0.5\<rparr>)]
      ((init (Val JNull) 500)\<lparr>ws := Some OPEN\<rparr>))) =
     WsSend (AudioInterrupted 500 (Val (JStr ''t1'')) 500) \<and>
   last (trace (run (\<lambda>c. ''AAAA'') (\<lambda>x y. x * y)
      [Message (Inl Rejected) (Some (JObj [(''type'', JStr ''turn.start''), (''role'', JStr ''user'')])),
       InterruptResolved
         (Some \<lparr>trackId = Val (JStr ''t1''), offset = 8000, currentTime = 0.5\<rparr>)]
      ((init (Val JNull) 500)\<lparr>ws := Some OPEN\<rparr>))) =
     Console Warn [AText ''Interruption requested but missing required data:'',
        AFlags [(''hasOffsetData'', True), (''hasTurnId'', False)]]"
  using interruption_message
          [where s = "(init (Val JNull) 500)\<lparr>ws := Some OPEN,
                        currentTurnId := Val (JStr ''t1''), pendingInterrupts := 1\<rparr>"
             and enc = "\<lambda>c. ''AAAA''" and mul = "\<lambda>x y. x * y"
             and reply = "Some \<lparr>trackId = Val (JStr ''t1''), offset = 8000, currentTime = 0.5\<rparr>"
             and od = "\<lparr>trackId = Val (JStr ''t1''), offset = 8000, currentTime = 0.5\<rparr>"]
        interruption_message
          [where s = "(init (Val JNull) 500)\<lparr>ws := Some OPEN, pendingInterrupts := 1\<rparr>"
             and enc = "\<lambda>c. ''AAAA''" and mul = "\<lambda>x y. x * y"
             and reply = "Some \<lparr>trackId = Val (JStr ''t1''), offset = 8000, currentTime = 0.5\<rparr>"
             and od = "\<lparr>trackId = Val (JStr ''t1''), offset = 8000, currentTime = 0.5\<rparr>"]
        interruption_message
          [where s = "(init (Val JNull) 500)\<lparr>ws := Some OPEN,
                        currentTurnId := Val (JStr ''t1''), pendingInterrupts := 1\<rparr>"
             and enc = "\<lambda>c. ''AAAA''" and mul = "\<lambda>x y. x * y"
             and reply = None
             and od = "\<lparr>trackId = Val (JStr ''t1''), offset = 8000, currentTime = 0.5\<rparr>"]
  by (simp add: init_def handleWebSocketMessage_def dispatch_def logReceived_def
        turnStartArm_def responseTextArm_def clientInterruptAssistantReplay_def
        interruptResume_def wsSend_eq emit_def wsOpen_def Let_def)

text \<open>
  C6. Outside push-to-talk every call of \<^verbatim>\<open>_initializeVAD\<close> arms a timer of 2000 ms
  of its own (under push-to-talk it arms none). The ready callback of the engine that
  a call created clears the timer of that call and no other, and a cleared timer does
  nothing. A timer that fires hands \<^verbatim>\<open>vad_model_failed\<close> to \<^verbatim>\<open>_wsSend\<close>, warns on
  the console, clears \<^verbatim>\<open>userIsSpeaking\<close> and registers a fresh amplitude detector next
  to those registered before; it changes no status and calls no \<^verbatim>\<open>onError\<close>. From
  then on, in every run, whatever other handlers, timers and detectors run in between,
  that detector treats its next amplitude as follows: above the threshold (the double
  that \<^verbatim>\<open>0.01\<close> denotes) while it is not speaking, it declares speech-start
  (\<^verbatim>\<open>userIsSpeaking\<close> true, \<^verbatim>\<open>vad_start\<close>); not above the threshold while it is
  speaking, it declares speech-end (\<^verbatim>\<open>userIsSpeaking\<close> false, \<^verbatim>\<open>vad_end\<close>) exactly
  when this is the 30th such amplitude in a row; otherwise only the closure's counter
  changes. While it is speaking, fewer than 30 such amplitudes have passed in a row.
\<close>

theorem vad_timeout_fallback:
  "(\<not> pushToTalkEnabled s \<longrightarrow>
      vadTimeouts (initializeVAD s) = insert (vadInits s) (vadTimeouts s) \<and>
      vadInits (initializeVAD s) = vadInits s + 1 \<and>
      trace (initializeVAD s) =
        trace s @
          [Console Log [AText ''initializing VAD'',
             AFlags [(''pushToTalkEnabled'', False), (''canInterrupt'', canInterrupt s)]],
           SetTimeout 2000,
           VadNew (if \<not> canInterrupt s then NonInterruptible else Interruptible)]) \<and>
   (pushToTalkEnabled s \<longrightarrow>
      vadTimeouts (initializeVAD s) = vadTimeouts s \<and>
      vadInits (initializeVAD s) = vadInits s \<and>
      trace (initializeVAD s) =
        trace s @
          [Console Log [AText ''initializing VAD'',
             AFlags [(''pushToTalkEnabled'', True), (''canInterrupt'', canInterrupt s)]]]) \<and>
   vadTimeouts (vadReady i s) = vadTimeouts s - {i} \<and>
   step enc mul (VadTimeout i) (vadReady i s) = vadReady i s \<and>
   (i \<in> vadTimeouts s \<longrightarrow>
      step enc mul (VadTimeout i) s =
        s\<lparr>userIsSpeaking := False,
          trace := trace s @
            [Console Log [AText ''silero vad model timeout''],
             Console Warn
               [AText ''VAD model failed to load - falling back to amplitude-based detection''],
             Console Log [AText ''sent ws msg:'', AMsg (VadEvents vad_model_failed)]] @
            (if wsOpen s then [WsSend (VadEvents vad_model_failed)] else []) @
            [OnUserIsSpeakingChange False, RecorderStartAmplitudeMonitoring],
          vadTimeouts := vadTimeouts s - {i},
          amplitudeVADs :=
            amplitudeVADs s @ [\<lparr>isSpeakingByAmplitude = False, silenceFrames = 0\<rparr>]\<rparr> \<and>
      length (amplitudeVADs s) < length (amplitudeVADs (run enc mul (VadTimeout i # es) s)) \<and>
      (isSpeakingByAmplitude (amplitudeVADs (run enc mul (VadTimeout i # es) s) ! length (amplitudeVADs s)) \<longrightarrow>
         trailingSilence (amplitudes (length (amplitudeVADs s)) es) < 30) \<and>
      step enc mul (Amplitude (length (amplitudeVADs s)) a) (run enc mul (VadTimeout i # es) s) =
        (if a > AMPLITUDE_THRESHOLD \<and> \<not> isSpeakingByAmplitude (amplitudeVADs (run enc mul (VadTimeout i # es) s) ! length (amplitudeVADs s)) then
           wsSend (VadEvents vad_start)
             (emit (OnUserIsSpeakingChange True)
                ((run enc mul (VadTimeout i # es) s)
                   \<lparr>amplitudeVADs :=
                      (amplitudeVADs (run enc mul (VadTimeout i # es) s))
                        [length (amplitudeVADs s) := \<lparr>isSpeakingByAmplitude = True, silenceFrames = 0\<rparr>],
                    userIsSpeaking := True\<rparr>))
         else if \<not> a > AMPLITUDE_THRESHOLD \<and> isSpeakingByAmplitude (amplitudeVADs (run enc mul (VadTimeout i # es) s) ! length (amplitudeVADs s))
                 \<and> trailingSilence (amplitudes (length (amplitudeVADs s)) es @ [a]) = 30 then
           wsSend (VadEvents vad_end)
             (emit (OnUserIsSpeakingChange False)
                ((run enc mul (VadTimeout i # es) s)
                   \<lparr>amplitudeVADs :=
                      (amplitudeVADs (run enc mul (VadTimeout i # es) s))
                        [length (amplitudeVADs s) := \<lparr>isSpeakingByAmplitude = False, silenceFrames = 30\<rparr>],
                    userIsSpeaking := False\<rparr>))
         else
           (run enc mul (VadTimeout i # es) s)
             \<lparr>amplitudeVADs :=
                (amplitudeVADs (run enc mul (VadTimeout i # es) s))
                  [length (amplitudeVADs s) := (amplitudeVADs (run enc mul (VadTimeout i # es) s) ! length (amplitudeVADs s))\<lparr>silenceFrames :=
                     (if a > AMPLITUDE_THRESHOLD then 0
                      else silenceFrames (amplitudeVADs (run enc mul (VadTimeout i # es) s) ! length (amplitudeVADs s)) + 1)\<rparr>]\<rparr>))"
proof -
  have init_auto: "\<not> pushToTalkEnabled s \<longrightarrow>
      vadTimeouts (initializeVAD s) = insert (vadInits s) (vadTimeouts s) \<and>
      vadInits (initializeVAD s) = vadInits s + 1 \<and>
      trace (initializeVAD s) =
        trace s @
          [Console Log [AText ''initializing VAD'',
             AFlags [(''pushToTalkEnabled'', False), (''canInterrupt'', canInterrupt s)]],
           SetTimeout 2000,
           VadNew (if \<not> canInterrupt s then NonInterruptible else Interruptible)]"
    by (simp add: initializeVAD_def Let_def)
  have init_ptt: "pushToTalkEnabled s \<longrightarrow>
      vadTimeouts (initializeVAD s) = vadTimeouts s \<and>
      vadInits (initializeVAD s) = vadInits s \<and>
      trace (initializeVAD s) =
        trace s @
          [Console Log [AText ''initializing VAD'',
             AFlags [(''pushToTalkEnabled'', True), (''canInterrupt'', canInterrupt s)]]]"
    by (simp add: initializeVAD_def Let_def)
  have cleared: "vadTimeouts (vadReady i s) = vadTimeouts s - {i} \<and>
   step enc mul (VadTimeout i) (vadReady i s) = vadReady i s"
    by (simp add: vadReady_def)
  have fired: "step enc mul (VadTimeout i) s =
        s\<lparr>userIsSpeaking := False,
          trace := trace s @
            [Console Log [AText ''silero vad model timeout''],
             Console Warn
               [AText ''VAD model failed to load - falling back to amplitude-based detection''],
             Console Log [AText ''sent ws msg:'', AMsg (VadEvents vad_model_failed)]] @
            (if wsOpen s then [WsSend (VadEvents vad_model_failed)] else []) @
            [OnUserIsSpeakingChange False, RecorderStartAmplitudeMonitoring],
          vadTimeouts := vadTimeouts s - {i},
          amplitudeVADs :=
            amplitudeVADs s @ [\<lparr>isSpeakingByAmplitude = False, silenceFrames = 0\<rparr>]\<rparr>"
    if armed: "i \<in> vadTimeouts s"
    using armed by (simp add: vadTimeoutCallback_eq wsOpen_def)
  have detector: "length (amplitudeVADs s) < length (amplitudeVADs (run enc mul (VadTimeout i # es) s)) \<and>
      (isSpeakingByAmplitude (amplitudeVADs (run enc mul (VadTimeout i # es) s) ! length (amplitudeVADs s)) \<longrightarrow>
         trailingSilence (amplitudes (length (amplitudeVADs s)) es) < 30) \<and>
      step enc mul (Amplitude (length (amplitudeVADs s)) a) (run enc mul (VadTimeout i # es) s) =
        (if a > AMPLITUDE_THRESHOLD \<and> \<not> isSpeakingByAmplitude (amplitudeVADs (run enc mul (VadTimeout i # es) s) ! length (amplitudeVADs s)) then
           wsSend (VadEvents vad_start)
             (emit (OnUserIsSpeakingChange True)
                ((run enc mul (VadTimeout i # es) s)
                   \<lparr>amplitudeVADs :=
                      (amplitudeVADs (run enc mul (VadTimeout i # es) s))
                        [length (amplitudeVADs s) := \<lparr>isSpeakingByAmplitude = True, silenceFrames = 0\<rparr>],
                    userIsSpeaking := True\<rparr>))
         else if \<not> a > AMPLITUDE_THRESHOLD \<and> isSpeakingByAmplitude (amplitudeVADs (run enc mul (VadTimeout i # es) s) ! length (amplitudeVADs s))
                 \<and> trailingSilence (amplitudes (length (amplitudeVADs s)) es @ [a]) = 30 then
           wsSend (VadEvents vad_end)
             (emit (OnUserIsSpeakingChange False)
                ((run enc mul (VadTimeout i # es) s)
                   \<lparr>amplitudeVADs :=
                      (amplitudeVADs (run enc mul (VadTimeout i # es) s))
                        [length (amplitudeVADs s) := \<lparr>isSpeakingByAmplitude = False, silenceFrames = 30\<rparr>],
                    userIsSpeaking := False\<rparr>))
         else
           (run enc mul (VadTimeout i # es) s)
             \<lparr>amplitudeVADs :=
                (amplitudeVADs (run enc mul (VadTimeout i # es) s))
                  [length (amplitudeVADs s) := (amplitudeVADs (run enc mul (VadTimeout i # es) s) ! length (amplitudeVADs s))\<lparr>silenceFrames :=
                     (if a > AMPLITUDE_THRESHOLD then 0
                      else silenceFrames (amplitudeVADs (run enc mul (VadTimeout i # es) s) ! length (amplitudeVADs s)) + 1)\<rparr>]\<rparr>)"
    if armed: "i \<in> vadTimeouts s"
  proof -
    define s1 where "s1 = step enc mul (VadTimeout i) s"
    define k where "k = length (amplitudeVADs s)"
    define t where "t = run enc mul es s1"
    have t_eq: "run enc mul (VadTimeout i # es) s = t"
      by (simp only: run.simps t_def s1_def)
    have len1: "k < length (amplitudeVADs s1)"
      and fresh: "amplitudeVADs s1 ! k = \<lparr>isSpeakingByAmplitude = False, silenceFrames = 0\<rparr>"
      using armed by (simp_all add: s1_def k_def vadTimeoutCallback_eq)
    from run_closure [OF len1 fresh, of enc mul es]
    have len: "k < length (amplitudeVADs t)"
      and sp: "isSpeakingByAmplitude (amplitudeVADs t ! k) \<longrightarrow>
                 silenceFrames (amplitudeVADs t ! k) = trailingSilence (amplitudes k es)
                 \<and> silenceFrames (amplitudeVADs t ! k) < 30"
      unfolding t_def by blast+
    from sp have bound: "isSpeakingByAmplitude (amplitudeVADs t ! k) \<longrightarrow>
        trailingSilence (amplitudes k es) < 30"
      by auto
    have st: "step enc mul (Amplitude k a) t = amplitudeCallback k a t"
      by simp
    note next_frame = amplitudeCallback_cases [OF len sp, of a]
    from len bound next_frame show ?thesis
      unfolding t_eq k_def [symmetric] st by blast
  qed
  from init_auto init_ptt cleared fired detector show ?thesis
    by blast
qed

text \<open>A call of \<^verbatim>\<open>_initializeVAD\<close> on an open socket arms timer 0; under push-to-talk
  it arms none. The timer fires; a loud amplitude starts the speech, a chunk is captured
  and sent, and a quiet amplitude neither ends the speech nor sends anything.\<close>

theorem vad_timeout_fallback_witness:
  "\<not> pushToTalkEnabled ((init (Val JNull) 500)\<lparr>ws := Some OPEN\<rparr>) \<and>
   vadTimeouts (initializeVAD ((init (Val JNull) 500)\<lparr>ws := Some OPEN\<rparr>)) = {0} \<and>
   pushToTalkEnabled ((init (Val JNull) 500)\<lparr>pushToTalkEnabled := True\<rparr>) \<and>
   vadTimeouts (initializeVAD ((init (Val JNull) 500)\<lparr>pushToTalkEnabled := True\<rparr>)) = {} \<and>
   0 \<in> vadTimeouts ((init (Val JNull) 500)\<lparr>ws := Some OPEN, vadInits := 1, vadTimeouts := {0}\<rparr>) \<and>
   trace (run (\<lambda>c. ''AAAA'') (\<lambda>x y. x * y)
            [VadTimeout 0, Amplitude 0 0.5, DataAvailable [7], Amplitude 0 0.001]
            ((init (Val JNull) 500)\<lparr>ws := Some OPEN, vadInits := 1, vadTimeouts := {0}\<rparr>)) =
     [Console Log [AText ''silero vad model timeout''],
      Console Warn [AText ''VAD model failed to load - falling back to amplitude-based detection''],
      Console Log [AText ''sent ws msg:'', AMsg (VadEvents vad_model_failed)],
      WsSend (VadEvents vad_model_failed),
      OnUserIsSpeakingChange False,
      RecorderStartAmplitudeMonitoring,
      OnUserIsSpeakingChange True,
      Console Log [AText ''sent ws msg:'', AMsg (VadEvents vad_start)],
      WsSend (VadEvents vad_start),
      WsSend (ClientAudio ''AAAA'')] \<and>
   userIsSpeaking (run (\<lambda>c. ''AAAA'') (\<lambda>x y. x * y)
            [VadTimeout 0, Amplitude 0 0.5, DataAvailable [7], Amplitude 0 0.001]
            ((init (Val JNull) 500)\<lparr>ws := Some OPEN, vadInits := 1, vadTimeouts := {0}\<rparr>))"
  using vad_timeout_fallback
          [where s = "(init (Val JNull) 500)\<lparr>ws := Some OPEN, vadInits := 1, vadTimeouts := {0}\<rparr>"
             and enc = "\<lambda>c. ''AAAA''" and mul = "\<lambda>x y. x * y" and i = 0
             and es = "[Amplitude 0 0.5, DataAvailable [7]]" and a = "0.001"]
        vad_timeout_fallback
          [where s = "(init (Val JNull) 500)\<lparr>ws := Some OPEN\<rparr>"
             and enc = "\<lambda>c. ''AAAA''" and mul = "\<lambda>x y. x * y" and i = 0
             and es = "[]" and a = "0.001"]
        vad_timeout_fallback
          [where s = "(init (Val JNull) 500)\<lparr>pushToTalkEnabled := True\<rparr>"
             and enc = "\<lambda>c. ''AAAA''" and mul = "\<lambda>x y. x * y" and i = 0
             and es = "[]" and a = "0.001"]
  by (simp add: init_def trailingSilence_def amplitudeCallback_def handleDataAvailable_def
        sendAudio_def sendBuffered_eq vadTimeoutCallback_eq AMPLITUDE_THRESHOLD_def
        SILENCE_FRAMES_THRESHOLD_def initializeVAD_def wsSend_eq emit_def wsOpen_def Let_def)

text \<open>
  C7 as stated fails on part_003: the speech-start callback of the interruptible profile
  never pauses the player, and the revision has no \<^verbatim>\<open>vadPausedPlayer\<close> field. With
  \<^verbatim>\<open>canInterrupt\<close> true and an open socket the callback puts \<^verbatim>\<open>vad_start\<close> on the wire
  and calls nothing of the player, whatever the player is doing.
\<close>

theorem speech_start_pause_counterexample:
  "WsSend (VadEvents vad_start)
     \<in> set (trace (step (\<lambda>c. ''AAAA'') (\<lambda>x y. x * y) (SpeechStart Interruptible)
                ((init (Val JNull) 500)\<lparr>ws := Some OPEN, canInterrupt := True\<rparr>))) \<and>
   PlayerPause
     \<notin> set (trace (step (\<lambda>c. ''AAAA'') (\<lambda>x y. x * y) (SpeechStart Interruptible)
                ((init (Val JNull) 500)\<lparr>ws := Some OPEN, canInterrupt := True\<rparr>)))"
  by (simp add: init_def onSpeechStart_def wsSend_eq emit_def wsOpen_def Let_def)

text \<open>
  C7, amended. In src/index.ts the speech-start callback of the interruptible profile,
  run while the player is playing, calls \<^verbatim>\<open>wavPlayer.pause()\<close> before it hands
  \<^verbatim>\<open>vad_start\<close> to \<^verbatim>\<open>_wsSend\<close>, and sets \<^verbatim>\<open>vadPausedPlayer\<close> and \<^verbatim>\<open>userIsSpeaking\<close>.
  In part_003 the callback hands \<^verbatim>\<open>vad_start\<close> to \<^verbatim>\<open>_wsSend\<close> first, then sets
  \<^verbatim>\<open>userIsSpeaking\<close> and tells the host; it never pauses the player.
\<close>

theorem speech_start_interruptible:
  "trace (onSpeechStart_idx True t) =
     trace t @
       [Console Log [AText ''onSpeechStart: WavPlayer is playing, pausing it.''],
        PlayerPause,
        Console Log [AText ''onSpeechStart: sending vad_start''],
        Console Log [AText ''sent ws msg:'', AMsg (VadEvents vad_start)]] @
       (if wsOpen t then [WsSend (VadEvents vad_start)] else []) \<and>
   vadPausedPlayer (onSpeechStart_idx True t) \<and>
   userIsSpeaking (onSpeechStart_idx True t) \<and>
   trace (onSpeechStart s) =
     trace s @
       [Console Log [AText ''onSpeechStart: sending vad_start''],
        Console Log [AText ''sent ws msg:'', AMsg (VadEvents vad_start)]] @
       (if wsOpen s then [WsSend (VadEvents vad_start)] else []) @
       [OnUserIsSpeakingChange True,
        Console Log [AText ''onSpeechStart: State after update'',
          AFlags [(''endUserTurn'', False), (''userIsSpeaking'', True)]]] \<and>
   userIsSpeaking (onSpeechStart s)"
  by (simp add: onSpeechStart_idx_def onSpeechStart_def wsSend_eq emit_def wsOpen_def Let_def)

text \<open>
  C8 as stated fails: on a client that connects, disconnects and connects again, the
  second socket never carries \<^verbatim>\<open>client.ready\<close>, because nothing resets
  \<^verbatim>\<open>readySent\<close>.
\<close>

theorem client_ready_per_connection_counterexample:
  "readyPerSocket (trace (run (\<lambda>c. ''AAAA'') (\<lambda>x y. x * y)
      [ConnectStart, ConnectAuthorized (AuthOk (Val (JStr ''s1'')) ''push_to_talk'' False),
       SocketState OPEN, OnOpenEv, ConnectBegun, ConnectRecording, ConnectFinish,
       Disconnect, SocketState CLOSED, OnCloseEv,
       ConnectStart, ConnectAuthorized (AuthOk (Val (JStr ''s1'')) ''push_to_talk'' False),
       SocketState OPEN, OnOpenEv, ConnectBegun, ConnectRecording, ConnectFinish]
      (init (Val JNull) 500))) = [1, 0]"
  by (simp add: init_def readyPerSocket_def connect_start_def connect_authorized_def
        connect_begun_def connect_recording_def connect_finish_def onopen_def onclose_def
        disconnect_def wsClose_def resetTurnTracking_def sendReadyIfNeeded_def
        initializeVAD_def setStatus_def wsSend_eq emit_def wsOpen_def Let_def)

text \<open>
  C8, amended. \<^verbatim>\<open>_sendReadyIfNeeded\<close> is idempotent, and a no-op once the flag is
  set. Over every run of a client object the notice is on the wire at most once. On a
  connection that starts with the flag unset (the first of the object) it is sent exactly
  once whichever of the two preconditions completes last: the socket opening
  (\<open>SocketState OPEN\<close>, \<open>OnOpenEv\<close>) or the end of the capture start-up (\<open>ConnectFinish\<close>).
\<close>

theorem client_ready_once:
  "sendReadyIfNeeded (sendReadyIfNeeded s) = sendReadyIfNeeded s \<and>
   (readySent s \<longrightarrow> sendReadyIfNeeded s = s) \<and>
   readyCount (trace (run enc mul es (init sid delay))) \<le> 1 \<and>
   (ws s = Some CONNECTING \<and> \<not> readySent s \<and> \<not> recorderStarted s \<longrightarrow>
      readyCount (trace (run enc mul [SocketState OPEN, OnOpenEv, ConnectFinish] s)) =
        readyCount (trace s) + 1 \<and>
      readyCount (trace (run enc mul [ConnectFinish, SocketState OPEN, OnOpenEv] s)) =
        readyCount (trace s) + 1)"
proof (intro conjI impI)
  show "sendReadyIfNeeded (sendReadyIfNeeded s) = sendReadyIfNeeded s"
    by (simp add: sendReadyIfNeeded_def)
  show "sendReadyIfNeeded s = s" if "readySent s"
    using that by (simp add: sendReadyIfNeeded_def)
  have "readyInv (run enc mul es (init sid delay))"
    using init_readyInv by (rule run_readyInv)
  then show "readyCount (trace (run enc mul es (init sid delay))) \<le> 1"
    by (simp add: readyInv_def split: if_splits)
next
  assume a: "ws s = Some CONNECTING \<and> \<not> readySent s \<and> \<not> recorderStarted s"
  then show "readyCount (trace (run enc mul [SocketState OPEN, OnOpenEv, ConnectFinish] s)) =
        readyCount (trace s) + 1"
    by (simp add: onopen_def connect_finish_def sendReadyIfNeeded_def wsOpen_def)
  from a show "readyCount (trace (run enc mul [ConnectFinish, SocketState OPEN, OnOpenEv] s)) =
        readyCount (trace s) + 1"
    by (simp add: onopen_def connect_finish_def sendReadyIfNeeded_def wsOpen_def)
qed

theorem client_ready_once_witness:
  "ws ((init (Val JNull) 500)\<lparr>ws := Some CONNECTING\<rparr>) = Some CONNECTING \<and>
   readyCount (trace (run (\<lambda>c. ''AAAA'') (\<lambda>x y. x * y) [SocketState OPEN, OnOpenEv, ConnectFinish]
      ((init (Val JNull) 500)\<lparr>ws := Some CONNECTING\<rparr>))) = 1 \<and>
   readyCount (trace (run (\<lambda>c. ''AAAA'') (\<lambda>x y. x * y) [ConnectFinish, SocketState OPEN, OnOpenEv]
      ((init (Val JNull) 500)\<lparr>ws := Some CONNECTING\<rparr>))) = 1 \<and>
   sendReadyIfNeeded ((init (Val JNull) 500)\<lparr>readySent := True\<rparr>) =
     (init (Val JNull) 500)\<lparr>readySent := True\<rparr>"
  using client_ready_once [of "(init (Val JNull) 500)\<lparr>ws := Some CONNECTING\<rparr>"
                              "\<lambda>c. ''AAAA''" "\<lambda>x y. x * y" "[]" "Val JNull" 500]
        client_ready_once [of "(init (Val JNull) 500)\<lparr>readySent := True\<rparr>"
                              "\<lambda>c. ''AAAA''" "\<lambda>x y. x * y" "[]" "Val JNull" 500]
  by (simp add: init_def)

text \<open>
  C9: what the code does when \<^verbatim>\<open>disconnect()\<close> is called twice on a connected client.
  \<^verbatim>\<open>this.ws\<close> is never set back to \<^verbatim>\<open>null\<close>, so the guard \<^verbatim>\<open>if (this.ws)\<close> holds
  both times: each call runs \<^verbatim>\<open>ws.close()\<close>, \<^verbatim>\<open>_setStatus('disconnected')\<close> and
  \<^verbatim>\<open>onDisconnect()\<close>; and the socket's own \<^verbatim>\<open>onclose\<close> handler, when the close event
  arrives, calls \<^verbatim>\<open>onDisconnect()\<close> a third time.
\<close>

theorem disconnect_twice_calls_back_twice:
  "count_list
     (trace (run (\<lambda>c. ''AAAA'') (\<lambda>x y. x * y)
        [ConnectStart, ConnectAuthorized (AuthOk (Val (JStr ''s1'')) ''push_to_talk'' False),
         SocketState OPEN, OnOpenEv, ConnectBegun, ConnectRecording, ConnectFinish,
         Disconnect, Disconnect]
        (init (Val JNull) 500))) OnDisconnect = 2 \<and>
   count_list
     (trace (run (\<lambda>c. ''AAAA'') (\<lambda>x y. x * y)
        [ConnectStart, ConnectAuthorized (AuthOk (Val (JStr ''s1'')) ''push_to_talk'' False),
         SocketState OPEN, OnOpenEv, ConnectBegun, ConnectRecording, ConnectFinish,
         Disconnect, Disconnect, SocketState CLOSED, OnCloseEv]
        (init (Val JNull) 500))) OnDisconnect = 3"
  by (simp add: init_def connect_start_def connect_authorized_def
        connect_begun_def connect_recording_def connect_finish_def onopen_def onclose_def
        disconnect_def wsClose_def resetTurnTracking_def sendReadyIfNeeded_def
        initializeVAD_def setStatus_def wsSend_eq emit_def wsOpen_def Let_def)

text \<open>
  C10. A message handed to \<^verbatim>\<open>_wsSend\<close> while the socket is \<^verbatim>\<open>null\<close> or not
  \<^verbatim>\<open>OPEN\<close> is dropped: no field of the client keeps it (nothing is queued), the trace
  gains no \<open>WsSend\<close>, no console call at error severity and no callback of the host.
  The only thing the call leaves is the line \<^verbatim>\<open>console.log('sent ws msg:', message)\<close>,
  at log severity, and only for a message that is not audio. The statement holds for
  both revisions.
\<close>

theorem wsSend_not_open_discards:
  assumes "ws s \<noteq> Some OPEN"
  shows "wsSend m s =
           s\<lparr>trace := trace s @
               (if msg_type m = ''client.audio'' then []
                else [Console Log [AText ''sent ws msg:'', AMsg m]])\<rparr>"
  using assms by (simp add: wsSend_eq wsOpen_def)

theorem wsSend_not_open_discards_witness:
  "wsSend (VadEvents vad_start) (init (Val JNull) 500) =
     (init (Val JNull) 500)\<lparr>trace :=
        [Console Log [AText ''sent ws msg:'', AMsg (VadEvents vad_start)]]\<rparr>
   \<and> wsSend (ClientAudio ''AAAA'') (init_idx\<lparr>ws := Some CONNECTING\<rparr>) =
       init_idx\<lparr>ws := Some CONNECTING\<rparr>"
  using wsSend_not_open_discards [of "init (Val JNull) 500" "VadEvents vad_start"]
        wsSend_not_open_discards [of "init_idx\<lparr>ws := Some CONNECTING\<rparr>" "ClientAudio ''AAAA''"]
  by (simp add: init_def init_idx_def)

end
